theory Spec2Isabelle
  imports
    Main
    "HOL-Library.Char_ord"
    "HOL-Library.List_Lexorder"
    "HOL-Library.Product_Lexorder"
begin

section \<open>Data model (employee\_search/models.py)\<close>

text \<open>
  Primary keys of \<open>Organization\<close> and \<open>Employee\<close> are UUIDs; the model keeps them as
  their canonical text. Dates and timestamps of an employee are kept as the ISO-8601
  text the serializer emits; the timestamps of the rate-limit ledger are integers
  counting microseconds, the resolution of Python's \<open>datetime\<close>.
\<close>

type_synonym uuid = string
type_synonym timestamp = int

record Organization =
  org_id :: uuid
  org_name :: string
  is_active :: bool

record OrganizationConfig =
  cfg_organization :: uuid
  visible_columns :: "string list"
  column_order :: "string list"

record Employee =
  emp_id :: uuid
  emp_organization :: uuid
  first_name :: string
  last_name :: string
  email :: string
  phone :: "string option"
  department :: string
  position :: string
  location :: string
  status :: string
  hire_date :: string
  created_at :: string
  updated_at :: string

text \<open>\<open>OrganizationConfig.AVAILABLE_COLUMNS\<close> and \<open>Employee.STATUS_CHOICES\<close>.\<close>

definition AVAILABLE_COLUMNS :: "(string \<times> string) list" where
  "AVAILABLE_COLUMNS =
     [(''first_name'', ''First Name''), (''last_name'', ''Last Name''),
      (''email'', ''Email''), (''phone'', ''Phone''),
      (''department'', ''Department''), (''position'', ''Position''),
      (''location'', ''Location''), (''status'', ''Status'')]"

definition STATUS_CHOICES :: "(string \<times> string) list" where
  "STATUS_CHOICES =
     [(''active'', ''Active''), (''inactive'', ''Inactive''),
      (''terminated'', ''Terminated''), (''on_leave'', ''On Leave'')]"

text \<open>The literal list that \<open>get_default_columns\<close> and both views spell out.\<close>

definition default_columns :: "string list" where
  "default_columns =
     [''first_name'', ''last_name'', ''email'', ''department'',
      ''position'', ''location'', ''status'']"

text \<open>
  \<open>OrganizationConfig.get_default_columns\<close>: \<open>not self.visible_columns\<close> is true for the
  empty list.
\<close>

definition get_default_columns :: "OrganizationConfig \<Rightarrow> string list" where
  "get_default_columns cfg =
     (if visible_columns cfg = [] then default_columns else visible_columns cfg)"

text \<open>JSON values that appear in a response row.\<close>

datatype json = JNull | JStr string

text \<open>\<open>Employee.full_name\<close>: \<open>f"{self.first_name} {self.last_name}"\<close>.\<close>

definition full_name :: "Employee \<Rightarrow> string" where
  "full_name e = first_name e @ '' '' @ last_name e"

text \<open>
  \<open>Employee.to_dict\<close>. The dictionary \<open>data\<close> has the ten keys below; with a non-empty
  \<open>visible_columns\<close> the comprehension keeps the listed keys that \<open>data\<close> has.
\<close>

definition to_dict_data :: "Employee \<Rightarrow> (string \<rightharpoonup> json)" where
  "to_dict_data e =
     [''id'' \<mapsto> JStr (emp_id e),
      ''first_name'' \<mapsto> JStr (first_name e),
      ''last_name'' \<mapsto> JStr (last_name e),
      ''email'' \<mapsto> JStr (email e),
      ''phone'' \<mapsto> (case phone e of None \<Rightarrow> JNull | Some p \<Rightarrow> JStr p),
      ''department'' \<mapsto> JStr (department e),
      ''position'' \<mapsto> JStr (position e),
      ''location'' \<mapsto> JStr (location e),
      ''status'' \<mapsto> JStr (status e),
      ''hire_date'' \<mapsto> JStr (hire_date e)]"

definition to_dict :: "Employee \<Rightarrow> string list \<Rightarrow> (string \<rightharpoonup> json)" where
  "to_dict e cols =
     (if cols \<noteq> [] then (\<lambda>k. if k \<in> set cols then to_dict_data e k else None)
      else to_dict_data e)"

section \<open>Field projection (hr\_backend/employee\_search/serializers.py)\<close>

text \<open>
  \<open>DynamicEmployeeSerializer\<close> is a model serializer over \<open>Employee\<close> with
  \<open>fields = '__all__'\<close> and the declared read-only field \<open>full_name\<close>. Its field
  table before pruning holds the primary key, the declared field, the model's columns in
  declaration order and the forward relation.
\<close>

definition serializer_fields :: "string list" where
  "serializer_fields =
     [''id'', ''full_name'', ''first_name'', ''last_name'', ''email'', ''phone'',
      ''department'', ''position'', ''location'', ''status'', ''hire_date'',
      ''created_at'', ''updated_at'', ''organization'']"

text \<open>The set \<open>allowed\<close> built in \<open>DynamicEmployeeSerializer.__init__\<close>.\<close>

definition allowed :: "string list \<Rightarrow> string set" where
  "allowed cols =
     (let a = insert ''id'' (set cols)
      in if ''first_name'' \<in> a \<and> ''last_name'' \<in> a then insert ''full_name'' a else a)"

text \<open>
  \<open>DynamicEmployeeSerializer.__init__\<close>: with a truthy \<open>visible_columns\<close> every field
  in \<open>existing - allowed\<close> is popped; with \<open>None\<close> or an empty list nothing is.
\<close>

definition dynamic_fields :: "string list \<Rightarrow> string list" where
  "dynamic_fields cols =
     (if cols \<noteq> [] then filter (\<lambda>f. f \<in> allowed cols) serializer_fields
      else serializer_fields)"

text \<open>The value each field of the table serializes to.\<close>

definition field_value :: "Employee \<Rightarrow> string \<Rightarrow> json" where
  "field_value e f =
     (if f = ''id'' then JStr (emp_id e)
      else if f = ''full_name'' then JStr (full_name e)
      else if f = ''first_name'' then JStr (first_name e)
      else if f = ''last_name'' then JStr (last_name e)
      else if f = ''email'' then JStr (email e)
      else if f = ''phone'' then (case phone e of None \<Rightarrow> JNull | Some p \<Rightarrow> JStr p)
      else if f = ''department'' then JStr (department e)
      else if f = ''position'' then JStr (position e)
      else if f = ''location'' then JStr (location e)
      else if f = ''status'' then JStr (status e)
      else if f = ''hire_date'' then JStr (hire_date e)
      else if f = ''created_at'' then JStr (created_at e)
      else if f = ''updated_at'' then JStr (updated_at e)
      else if f = ''organization'' then JStr (emp_organization e)
      else JNull)"

text \<open>One output row: the remaining fields in table order, each with its value.\<close>

type_synonym row = "(string \<times> json) list"

definition to_representation :: "string list \<Rightarrow> Employee \<Rightarrow> row" where
  "to_representation cols e = map (\<lambda>f. (f, field_value e f)) (dynamic_fields cols)"

definition row_keys :: "row \<Rightarrow> string set" where
  "row_keys r = fst ` set r"

section \<open>Text helpers\<close>

text \<open>
  Strings are byte lists. Case folding is the ASCII one, and the whitespace that
  \<open>str.strip()\<close> removes is the ASCII whitespace (tab to carriage return, the four
  separators 28 to 31, and the space).
\<close>

definition lower_char :: "char \<Rightarrow> char" where
  "lower_char c =
     (if CHR ''A'' \<le> c \<and> c \<le> CHR ''Z'' then char_of (of_char c + (32::nat)) else c)"

definition lower :: "string \<Rightarrow> string" where
  "lower s = map lower_char s"

definition is_space :: "char \<Rightarrow> bool" where
  "is_space c =
     (let n = (of_char c :: nat) in (9 \<le> n \<and> n \<le> 13) \<or> (28 \<le> n \<and> n \<le> 32))"

definition strip_chars :: "(char \<Rightarrow> bool) \<Rightarrow> string \<Rightarrow> string" where
  "strip_chars p s = rev (dropWhile p (rev (dropWhile p s)))"

definition strip :: "string \<Rightarrow> string" where
  "strip s = strip_chars is_space s"

text \<open>\<open>s.startswith(p)\<close>.\<close>

definition startswith :: "string \<Rightarrow> string \<Rightarrow> bool" where
  "startswith s p = (take (length p) s = p)"

text \<open>\<open>needle in hay\<close>: the needle occurs as a contiguous run.\<close>

fun contains :: "string \<Rightarrow> string \<Rightarrow> bool" where
  "contains [] needle = (needle = [])"
| "contains (c # cs) needle = (startswith (c # cs) needle \<or> contains cs needle)"

text \<open>The ORM lookup \<open>field__icontains=term\<close>.\<close>

definition icontains :: "string \<Rightarrow> string \<Rightarrow> bool" where
  "icontains field_text term = contains (lower field_text) (lower term)"

text \<open>\<open>s.split(sep)\<close> for a one-character separator.\<close>

fun split_on :: "char \<Rightarrow> string \<Rightarrow> string list" where
  "split_on sep [] = [] # []"
| "split_on sep (c # cs) =
     (if c = sep then [] # split_on sep cs
      else (case split_on sep cs of
              [] \<Rightarrow> [c] # []
            | w # ws \<Rightarrow> (c # w) # ws))"

section \<open>Exceptions and ORM lookups\<close>

datatype model = OrganizationModel | OrganizationConfigModel | RateLimitRecordModel

datatype exn =
    DoesNotExist model
  | MultipleObjectsReturned model
  | Http404
  | NotFound
  | ValidationError
  | DatabaseError

text \<open>
  \<open>QuerySet.get\<close> on the rows that match: exactly one row is returned, none raises
  \<open>DoesNotExist\<close>, several raise \<open>MultipleObjectsReturned\<close>.
\<close>

fun orm_get :: "model \<Rightarrow> 'a list \<Rightarrow> exn + 'a" where
  "orm_get m [] = Inl (DoesNotExist m)"
| "orm_get m [x] = Inr x"
| "orm_get m (x # y # zs) = Inl (MultipleObjectsReturned m)"

record database =
  organizations :: "Organization list"
  organization_configs :: "OrganizationConfig list"
  employees :: "Employee list"

text \<open>\<open>get_object_or_404(Organization, id=organization_id, is_active=True)\<close>.\<close>

definition get_object_or_404 :: "database \<Rightarrow> uuid \<Rightarrow> exn + Organization" where
  "get_object_or_404 db oid =
     (case orm_get OrganizationModel
             (filter (\<lambda>r. org_id r = oid \<and> is_active r) (organizations db)) of
        Inl (DoesNotExist m) \<Rightarrow> Inl Http404
      | Inl e \<Rightarrow> Inl e
      | Inr org \<Rightarrow> Inr org)"

text \<open>The reverse one-to-one accessor \<open>organization.config\<close>.\<close>

definition related_config :: "database \<Rightarrow> Organization \<Rightarrow> exn + OrganizationConfig" where
  "related_config db org =
     orm_get OrganizationConfigModel
       (filter (\<lambda>c. cfg_organization c = org_id org) (organization_configs db))"

text \<open>
  The inner \<open>try\<close> of both views: the configured columns, or the literal default when
  \<open>OrganizationConfig.DoesNotExist\<close> is raised. Any other exception leaves the block.
\<close>

definition resolve_visible_columns :: "database \<Rightarrow> Organization \<Rightarrow> exn + string list" where
  "resolve_visible_columns db org =
     (case related_config db org of
        Inr cfg \<Rightarrow> Inr (get_default_columns cfg)
      | Inl (DoesNotExist OrganizationConfigModel) \<Rightarrow> Inr default_columns
      | Inl e \<Rightarrow> Inl e)"

section \<open>Search parameters (EmployeeSearchSerializer)\<close>

text \<open>
  The text of an integer-valued query parameter, classified by how it is read:
  \<open>Blank\<close> is the empty string; \<open>IntText n\<close> is text of at most 1000 characters that
  Python's \<open>int()\<close> reads as \<open>n\<close>; \<open>DecText n\<close> is text such as \<open>3.0\<close>, which the
  serializer's integer field accepts as \<open>n\<close> after dropping the trailing zero fraction
  and \<open>int()\<close> rejects; \<open>NotInt\<close> is any other text.
\<close>

datatype int_text = Blank | NotInt | IntText int | DecText int

text \<open>\<open>request.query_params\<close>: for each recognised key the value given, if any.\<close>

record query_params =
  q_search :: "string option"
  q_department :: "string option"
  q_position :: "string option"
  q_location :: "string option"
  q_status :: "string option"
  q_page :: "int_text option"
  q_page_size :: "int_text option"

datatype field_error =
    blank
  | null_characters_not_allowed
  | invalid_choice string
  | invalid
  | min_value int
  | max_value int

text \<open>
  The outcome of one field: skipped (absent and without default), a validated value, or
  an error. Query parameters are form input, so an empty string given for a field that
  is not required counts as absent.
\<close>

datatype 'a field_result = Skipped | Valid 'a | Failed field_error

text \<open>\<open>CharField(required=False)\<close>: whitespace is trimmed, a blank value fails.\<close>

definition char_field :: "string option \<Rightarrow> string field_result" where
  "char_field raw =
     (case raw of
        None \<Rightarrow> Skipped
      | Some s \<Rightarrow>
          if s = [] then Skipped
          else if strip s = [] then Failed blank
          else if CHR 0x00 \<in> set (strip s) then Failed null_characters_not_allowed
          else Valid (strip s))"

text \<open>\<open>ChoiceField(choices=..., required=False)\<close>: the text must be one of the keys.\<close>

definition choice_field :: "(string \<times> string) list \<Rightarrow> string option \<Rightarrow> string field_result" where
  "choice_field choices raw =
     (case raw of
        None \<Rightarrow> Skipped
      | Some s \<Rightarrow>
          if s = [] then Skipped
          else if s \<in> set (map fst choices) then Valid s
          else Failed (invalid_choice s))"

text \<open>\<open>IntegerField(min_value=lo, max_value=hi, required=False, default=d)\<close>.\<close>

definition integer_field ::
  "int \<Rightarrow> int option \<Rightarrow> int \<Rightarrow> int_text option \<Rightarrow> int field_result" where
  "integer_field lo hi d raw =
     (let check = (\<lambda>n. if n < lo then Failed (min_value lo)
                        else (case hi of
                                None \<Rightarrow> Valid n
                              | Some h \<Rightarrow> if h < n then Failed (max_value h) else Valid n))
      in case raw of
           None \<Rightarrow> Valid d
         | Some Blank \<Rightarrow> Valid d
         | Some NotInt \<Rightarrow> Failed invalid
         | Some (IntText n) \<Rightarrow> check n
         | Some (DecText n) \<Rightarrow> check n)"

text \<open>\<open>validated_data\<close>: a key is present exactly when its field was not skipped.\<close>

record search_data =
  v_search :: "string option"
  v_department :: "string option"
  v_position :: "string option"
  v_location :: "string option"
  v_status :: "string option"
  v_page :: "int option"
  v_page_size :: "int option"

definition field_errors :: "string \<Rightarrow> 'a field_result \<Rightarrow> (string \<times> field_error) list" where
  "field_errors name r = (case r of Failed e \<Rightarrow> [(name, e)] | _ \<Rightarrow> [])"

definition field_data :: "'a field_result \<Rightarrow> 'a option" where
  "field_data r = (case r of Valid v \<Rightarrow> Some v | _ \<Rightarrow> None)"

text \<open>\<open>search_serializer.errors\<close>, in field declaration order.\<close>

definition serializer_errors :: "query_params \<Rightarrow> (string \<times> field_error) list" where
  "serializer_errors q =
     field_errors ''search'' (char_field (q_search q))
     @ field_errors ''department'' (char_field (q_department q))
     @ field_errors ''position'' (char_field (q_position q))
     @ field_errors ''location'' (char_field (q_location q))
     @ field_errors ''status'' (choice_field STATUS_CHOICES (q_status q))
     @ field_errors ''page'' (integer_field 1 None 1 (q_page q))
     @ field_errors ''page_size'' (integer_field 1 (Some 100) 50 (q_page_size q))"

definition is_valid :: "query_params \<Rightarrow> bool" where
  "is_valid q = (serializer_errors q = [])"

text \<open>\<open>validated_data\<close>; the serializer's own \<open>validate\<close> returns the data unchanged.\<close>

definition validated_data :: "query_params \<Rightarrow> search_data" where
  "validated_data q =
     \<lparr> v_search = field_data (char_field (q_search q)),
       v_department = field_data (char_field (q_department q)),
       v_position = field_data (char_field (q_position q)),
       v_location = field_data (char_field (q_location q)),
       v_status = field_data (choice_field STATUS_CHOICES (q_status q)),
       v_page = field_data (integer_field 1 None 1 (q_page q)),
       v_page_size = field_data (integer_field 1 (Some 100) 50 (q_page_size q)) \<rparr>"

section \<open>Employee queries and pagination (hr\_backend/employee\_search/views.py)\<close>

text \<open>
  The query of \<open>search_employees\<close>: the organization's employees first, then one
  \<open>filter\<close> call for each validated parameter that is present and truthy, then the
  ordering by last name and first name, modelled as a stable sort on the texts.
\<close>

definition truthy :: "string option \<Rightarrow> bool" where
  "truthy v = (case v of None \<Rightarrow> False | Some s \<Rightarrow> s \<noteq> [])"

definition search_queryset :: "database \<Rightarrow> Organization \<Rightarrow> search_data \<Rightarrow> Employee list" where
  "search_queryset db org sd =
     (let qs0 = filter (\<lambda>e. emp_organization e = org_id org) (employees db);
          qs1 = (if truthy (v_search sd)
                 then filter (\<lambda>e. icontains (first_name e) (the (v_search sd))
                                 \<or> icontains (last_name e) (the (v_search sd))
                                 \<or> icontains (email e) (the (v_search sd))) qs0
                 else qs0);
          qs2 = (if truthy (v_department sd)
                 then filter (\<lambda>e. icontains (department e) (the (v_department sd))) qs1
                 else qs1);
          qs3 = (if truthy (v_position sd)
                 then filter (\<lambda>e. icontains (position e) (the (v_position sd))) qs2
                 else qs2);
          qs4 = (if truthy (v_location sd)
                 then filter (\<lambda>e. icontains (location e) (the (v_location sd))) qs3
                 else qs3);
          qs5 = (if truthy (v_status sd)
                 then filter (\<lambda>e. status e = the (v_status sd)) qs4
                 else qs4)
      in sort_key (\<lambda>e. (last_name e, first_name e)) qs5)"

text \<open>
  \<open>EmployeeSearchPagination\<close>: \<open>page_size_query_param = 'page_size'\<close>,
  \<open>max_page_size = 100\<close>. The page size is read from the request again: text that
  \<open>int()\<close> reads as a positive number is used, cut off at the maximum; anything else
  falls back to \<open>paginator.page_size\<close>, which the view set from the validated data.
\<close>

definition max_page_size :: int where
  "max_page_size = 100"

definition get_page_size :: "int \<Rightarrow> query_params \<Rightarrow> int" where
  "get_page_size self_page_size q =
     (case q_page_size q of
        Some (IntText n) \<Rightarrow> if n \<le> 0 then self_page_size else min n max_page_size
      | _ \<Rightarrow> self_page_size)"

text \<open>\<open>search_data.get('page_size', 50)\<close>, assigned to \<open>paginator.page_size\<close>.\<close>

definition paginator_page_size :: "search_data \<Rightarrow> int" where
  "paginator_page_size sd = (case v_page_size sd of None \<Rightarrow> 50 | Some n \<Rightarrow> n)"

text \<open>
  \<open>Paginator.num_pages\<close> with no orphans and an empty first page allowed:
  \<open>ceil(max(1, count) / per_page)\<close>.
\<close>

definition num_pages :: "int \<Rightarrow> int \<Rightarrow> int" where
  "num_pages count per_page = (max 1 count + per_page - 1) div per_page"

record page =
  object_list :: "Employee list"
  number :: int
  page_count :: int
  page_num_pages :: int

text \<open>
  \<open>PageNumberPagination.paginate_queryset\<close>. The page number is the request's \<open>page\<close>
  text, or 1 when that is absent or empty. Text that \<open>int()\<close> does not read is not a
  page number; a number below 1 or above \<open>num_pages\<close> is an empty page; both are an
  \<open>InvalidPage\<close>, which is turned into the framework's \<open>NotFound\<close> exception.
\<close>

definition paginate_queryset ::
  "int \<Rightarrow> query_params \<Rightarrow> Employee list \<Rightarrow> exn + page option" where
  "paginate_queryset self_page_size q queryset =
     (let page_size = get_page_size self_page_size q
      in if page_size = 0 then Inr None
         else
           (let count = int (length queryset);
                pages = num_pages count page_size
            in case (case q_page q of
                       None \<Rightarrow> Some 1
                     | Some Blank \<Rightarrow> Some 1
                     | Some (IntText n) \<Rightarrow> Some n
                     | Some (DecText n) \<Rightarrow> None
                     | Some NotInt \<Rightarrow> None) of
                 None \<Rightarrow> Inl NotFound
               | Some n \<Rightarrow>
                   if n < 1 then Inl NotFound
                   else if pages < n then Inl NotFound
                   else
                     (let bottom = (n - 1) * page_size;
                          top = (if count \<le> bottom + page_size then count
                                 else bottom + page_size)
                      in Inr (Some \<lparr> object_list =
                                        take (nat (top - bottom)) (drop (nat bottom) queryset),
                                      number = n,
                                      page_count = count,
                                      page_num_pages = pages \<rparr>))))"

section \<open>Responses\<close>

record meta =
  meta_organization :: "uuid \<times> string"
  meta_visible_columns :: "string list"
  meta_search_params :: search_data

text \<open>
  Response bodies. \<open>next\<close> and \<open>previous\<close> of a paginated body are links; the model
  keeps the page number each link carries.
\<close>

datatype body =
    ErrorBody string
  | InvalidParametersBody string "(string \<times> field_error) list"
  | ValidationErrorBody string
  | PaginatedBody "row list" int "int option" "int option" meta
  | ResultsBody "row list" int meta
  | ConfigBody "uuid \<times> string" "string list" "string list" "(string \<times> string) list"
  | RateLimitBody string string int int

record response =
  status_code :: nat
  content :: body

definition Response :: "nat \<Rightarrow> body \<Rightarrow> response" where
  "Response code b = \<lparr> status_code = code, content = b \<rparr>"

text \<open>The \<open>results\<close> list of a body, empty for a body that has none.\<close>

fun results :: "body \<Rightarrow> row list" where
  "results (PaginatedBody rows c n p m) = rows"
| "results (ResultsBody rows c m) = rows"
| "results b = []"

text \<open>The visible-columns list a body reports, if it reports one.\<close>

fun reported_columns :: "body \<Rightarrow> string list option" where
  "reported_columns (PaginatedBody rows c n p m) = Some (meta_visible_columns m)"
| "reported_columns (ResultsBody rows c m) = Some (meta_visible_columns m)"
| "reported_columns (ConfigBody org cols ord avail) = Some cols"
| "reported_columns b = None"

text \<open>
  The \<open>except\<close> clauses of \<open>search_employees\<close>, in order:
  \<open>Organization.DoesNotExist\<close>, \<open>Http404\<close>, \<open>ValidationError\<close>, \<open>Exception\<close>.
\<close>

fun search_employees_except :: "exn \<Rightarrow> response" where
  "search_employees_except (DoesNotExist OrganizationModel) =
     Response 404 (ErrorBody ''Organization not found or inactive'')"
| "search_employees_except Http404 =
     Response 404 (ErrorBody ''Organization not found or inactive'')"
| "search_employees_except ValidationError =
     Response 400 (ValidationErrorBody ''Validation error'')"
| "search_employees_except e =
     Response 500 (ErrorBody ''Internal server error'')"

text \<open>The view \<open>search_employees(request, organization_id)\<close>.\<close>

definition search_employees :: "database \<Rightarrow> uuid \<Rightarrow> query_params \<Rightarrow> response" where
  "search_employees db organization_id q =
     (case get_object_or_404 db organization_id of
        Inl e \<Rightarrow> search_employees_except e
      | Inr org \<Rightarrow>
          (case resolve_visible_columns db org of
             Inl e \<Rightarrow> search_employees_except e
           | Inr cols \<Rightarrow>
               if \<not> is_valid q
               then Response 400
                      (InvalidParametersBody ''Invalid search parameters'' (serializer_errors q))
               else
                 (let sd = validated_data q;
                      queryset = search_queryset db org sd;
                      m = \<lparr> meta_organization = (org_id org, org_name org),
                            meta_visible_columns = cols,
                            meta_search_params = sd \<rparr>
                  in case paginate_queryset (paginator_page_size sd) q queryset of
                       Inl e \<Rightarrow> search_employees_except e
                     | Inr (Some pg) \<Rightarrow>
                         Response 200
                           (PaginatedBody
                              (map (to_representation cols) (object_list pg))
                              (page_count pg)
                              (if number pg < page_num_pages pg
                               then Some (number pg + 1) else None)
                              (if 1 < number pg then Some (number pg - 1) else None)
                              m)
                     | Inr None \<Rightarrow>
                         Response 200
                           (ResultsBody
                              (map (to_representation cols) queryset)
                              (int (length queryset))
                              m))))"

text \<open>
  The \<open>except\<close> clauses of \<open>organization_config\<close>: \<open>Organization.DoesNotExist\<close>, then
  \<open>Exception\<close>.
\<close>

fun organization_config_except :: "exn \<Rightarrow> response" where
  "organization_config_except (DoesNotExist OrganizationModel) =
     Response 404 (ErrorBody ''Organization not found or inactive'')"
| "organization_config_except e =
     Response 500 (ErrorBody ''Internal server error'')"

text \<open>The view \<open>organization_config(request, organization_id)\<close>.\<close>

definition organization_config :: "database \<Rightarrow> uuid \<Rightarrow> response" where
  "organization_config db organization_id =
     (case get_object_or_404 db organization_id of
        Inl e \<Rightarrow> organization_config_except e
      | Inr org \<Rightarrow>
          (case related_config db org of
             Inr config \<Rightarrow>
               Response 200
                 (ConfigBody (org_id org, org_name org)
                    (get_default_columns config)
                    (if column_order config \<noteq> [] then column_order config
                     else get_default_columns config)
                    AVAILABLE_COLUMNS)
           | Inl (DoesNotExist OrganizationConfigModel) \<Rightarrow>
               Response 200
                 (ConfigBody (org_id org, org_name org)
                    default_columns default_columns AVAILABLE_COLUMNS)
           | Inl e \<Rightarrow> organization_config_except e))"

section \<open>Rate limiter (hr\_backend/employee\_search/middleware.py)\<close>

record RateLimitRecord =
  rid :: nat
  ip_address :: string
  rl_organization :: "uuid option"
  request_count :: int
  window_start :: timestamp
  last_request :: timestamp

text \<open>\<open>timedelta(minutes=n)\<close> and \<open>timedelta(hours=n)\<close> in microseconds.\<close>

definition minutes :: "int \<Rightarrow> int" where
  "minutes n = n * 60000000"

definition hours :: "int \<Rightarrow> int" where
  "hours n = n * 3600000000"

text \<open>
  The two settings, each possibly unset, and \<open>RateLimitMiddleware.__init__\<close>, which
  reads them with the defaults 60 and 1000.
\<close>

record settings =
  RATE_LIMIT_REQUESTS_PER_MINUTE :: "int option"
  RATE_LIMIT_REQUESTS_PER_HOUR :: "int option"

record RateLimitMiddleware =
  requests_per_minute :: int
  requests_per_hour :: int

definition init :: "settings \<Rightarrow> RateLimitMiddleware" where
  "init st =
     \<lparr> requests_per_minute =
         (case RATE_LIMIT_REQUESTS_PER_MINUTE st of None \<Rightarrow> 60 | Some n \<Rightarrow> n),
       requests_per_hour =
         (case RATE_LIMIT_REQUESTS_PER_HOUR st of None \<Rightarrow> 1000 | Some n \<Rightarrow> n) \<rparr>"

text \<open>
  What the middleware reads of a request: the path and the two \<open>META\<close> entries.
\<close>

record request =
  path :: string
  HTTP_X_FORWARDED_FOR :: "string option"
  REMOTE_ADDR :: "string option"

text \<open>
  The store can fail. Each storage call of the middleware is named, and a request is
  processed under a fault set: a call in the set raises a database error and changes
  nothing.
\<close>

datatype storage_call =
    OrganizationGet
  | CleanupDelete
  | CheckGetOrCreate
  | CountMinute
  | CountHour
  | RecordGetOrCreate
  | RecordSave

type_synonym faults = "storage_call \<Rightarrow> bool"

definition no_faults :: faults where
  "no_faults = (\<lambda>c. False)"

text \<open>\<open>_should_skip_rate_limiting\<close>.\<close>

definition skip_paths :: "string list" where
  "skip_paths = [''/api/v1/health/'', ''/admin/'']"

definition should_skip_rate_limiting :: "request \<Rightarrow> bool" where
  "should_skip_rate_limiting req = list_ex (\<lambda>p. startswith (path req) p) skip_paths"

text \<open>\<open>_get_client_ip\<close>.\<close>

definition get_client_ip :: "request \<Rightarrow> string" where
  "get_client_ip req =
     (case HTTP_X_FORWARDED_FOR req of
        Some x \<Rightarrow>
          if x \<noteq> []
          then strip (case split_on (CHR '','') x of [] \<Rightarrow> [] | w # ws \<Rightarrow> w)
          else (case REMOTE_ADDR req of None \<Rightarrow> ''127.0.0.1'' | Some a \<Rightarrow> a)
      | None \<Rightarrow> (case REMOTE_ADDR req of None \<Rightarrow> ''127.0.0.1'' | Some a \<Rightarrow> a))"

text \<open>
  A UUID column looked up by text converts the text first. The conversion modelled here
  accepts 32 hexadecimal digits, with hyphens anywhere and braces around them, and
  yields the canonical lower-case text; any other text is not a UUID.
\<close>

definition is_hex :: "char \<Rightarrow> bool" where
  "is_hex c =
     ((CHR ''0'' \<le> c \<and> c \<le> CHR ''9'') \<or> (CHR ''a'' \<le> c \<and> c \<le> CHR ''f'')
      \<or> (CHR ''A'' \<le> c \<and> c \<le> CHR ''F''))"

definition uuid_of_text :: "string \<Rightarrow> uuid option" where
  "uuid_of_text s =
     (let hex = filter (\<lambda>c. c \<noteq> CHR ''-'')
                  (strip_chars (\<lambda>c. c = CHR ''{'' \<or> c = CHR ''}'') s)
      in if length hex = 32 \<and> list_all is_hex hex
         then Some (take 8 (lower hex) @ ''-'' @ take 4 (drop 8 (lower hex)) @ ''-''
                    @ take 4 (drop 12 (lower hex)) @ ''-'' @ take 4 (drop 16 (lower hex))
                    @ ''-'' @ drop 20 (lower hex))
         else None)"

text \<open>
  \<open>_get_organization_from_request\<close>. The \<open>except\<close> clause catches
  \<open>Organization.DoesNotExist\<close>, \<open>ValueError\<close> and \<open>IndexError\<close>; the validation
  error of a text that is not a UUID and a database error are not among them and leave
  the function.
\<close>

definition get_organization_from_request ::
  "faults \<Rightarrow> Organization list \<Rightarrow> request \<Rightarrow> exn + Organization option" where
  "get_organization_from_request f orgs req =
     (let path_parts = split_on (CHR ''/'') (strip_chars (\<lambda>c. c = CHR ''/'') (path req))
      in if 4 \<le> length path_parts \<and> path_parts ! 2 = ''organizations''
         then (case uuid_of_text (path_parts ! 3) of
                 None \<Rightarrow> Inl ValidationError
               | Some oid \<Rightarrow>
                   if f OrganizationGet then Inl DatabaseError
                   else (case orm_get OrganizationModel
                                (filter (\<lambda>r. org_id r = oid \<and> is_active r) orgs) of
                           Inr org \<Rightarrow> Inr (Some org)
                         | Inl (DoesNotExist m) \<Rightarrow> Inr None
                         | Inl e \<Rightarrow> Inl e))
         else Inr None)"

text \<open>
  \<open>_cleanup_old_records\<close>: the delete is inside a \<open>try\<close> whose handler only logs.
\<close>

definition cleanup_old_records ::
  "faults \<Rightarrow> RateLimitRecord list \<Rightarrow> string \<Rightarrow> timestamp \<Rightarrow> RateLimitRecord list" where
  "cleanup_old_records f ledger ip current_time =
     (if f CleanupDelete then ledger
      else (let cutoff_time = current_time - hours 24
            in filter (\<lambda>r. \<not> (ip_address r = ip \<and> last_request r < cutoff_time)) ledger))"

text \<open>
  \<open>RateLimitRecord.objects.get_or_create(ip_address=..., organization=..., defaults=...)\<close>:
  the row that matches, or a new row with the next primary key. \<open>window_start\<close> and
  \<open>last_request\<close> of a new row are set by the model's \<open>auto_now_add\<close> and \<open>auto_now\<close>.
  The result is the row, the \<open>created\<close> flag and the ledger.
\<close>

definition next_rid :: "RateLimitRecord list \<Rightarrow> nat" where
  "next_rid ledger = Suc (fold max (map rid ledger) 0)"

definition get_or_create ::
  "RateLimitRecord list \<Rightarrow> string \<Rightarrow> uuid option \<Rightarrow> int \<Rightarrow> timestamp
     \<Rightarrow> exn + (RateLimitRecord \<times> bool \<times> RateLimitRecord list)" where
  "get_or_create ledger ip org count0 now =
     (case filter (\<lambda>r. ip_address r = ip \<and> rl_organization r = org) ledger of
        [] \<Rightarrow>
          (let r = \<lparr> rid = next_rid ledger, ip_address = ip, rl_organization = org,
                     request_count = count0, window_start = now, last_request = now \<rparr>
           in Inr (r, True, ledger @ [r]))
      | [r] \<Rightarrow> Inr (r, False, ledger)
      | r # r' # rs \<Rightarrow> Inl (MultipleObjectsReturned RateLimitRecordModel))"

text \<open>\<open>rate_record.save()\<close>: the row with this primary key is overwritten.\<close>

definition save :: "RateLimitRecord \<Rightarrow> RateLimitRecord list \<Rightarrow> RateLimitRecord list" where
  "save r ledger = map (\<lambda>x. if rid x = rid r then r else x) ledger"

text \<open>\<open>_count_requests_since\<close>: any exception is logged and counted as 0.\<close>

definition count_requests_since ::
  "bool \<Rightarrow> RateLimitRecord list \<Rightarrow> string \<Rightarrow> uuid option \<Rightarrow> timestamp \<Rightarrow> int" where
  "count_requests_since fails ledger ip org since_time =
     (if fails then 0
      else sum_list (map request_count
             (filter (\<lambda>r. ip_address r = ip \<and> rl_organization r = org
                          \<and> since_time \<le> last_request r) ledger)))"

text \<open>
  \<open>_is_rate_limited\<close>. The clock is read once per request. The \<open>get_or_create\<close> call
  stands outside any \<open>try\<close>.
\<close>

definition is_rate_limited ::
  "RateLimitMiddleware \<Rightarrow> faults \<Rightarrow> RateLimitRecord list \<Rightarrow> string \<Rightarrow> uuid option
     \<Rightarrow> timestamp \<Rightarrow> (exn + bool) \<times> RateLimitRecord list" where
  "is_rate_limited self f ledger ip org now =
     (let ledger1 = cleanup_old_records f ledger ip now
      in if f CheckGetOrCreate then (Inl DatabaseError, ledger1)
         else (case get_or_create ledger1 ip org 0 now of
                 Inl e \<Rightarrow> (Inl e, ledger1)
               | Inr (rate_record, created, ledger2) \<Rightarrow>
                   (let minute_ago = now - minutes 1;
                        minute_requests =
                          count_requests_since (f CountMinute) ledger2 ip org minute_ago
                    in if requests_per_minute self \<le> minute_requests
                       then (Inr True, ledger2)
                       else
                         (let hour_ago = now - hours 1;
                              hour_requests =
                                count_requests_since (f CountHour) ledger2 ip org hour_ago
                          in if requests_per_hour self \<le> hour_requests
                             then (Inr True, ledger2)
                             else (Inr False, ledger2)))))"

text \<open>\<open>_record_request\<close>: the whole body is inside a \<open>try\<close> whose handler only logs.\<close>

definition record_request ::
  "faults \<Rightarrow> RateLimitRecord list \<Rightarrow> string \<Rightarrow> uuid option \<Rightarrow> timestamp
     \<Rightarrow> RateLimitRecord list" where
  "record_request f ledger ip org now =
     (if f RecordGetOrCreate then ledger
      else (case get_or_create ledger ip org 1 now of
              Inl e \<Rightarrow> ledger
            | Inr (rate_record, created, ledger1) \<Rightarrow>
                if \<not> created
                then (if f RecordSave then ledger1
                      else save (rate_record\<lparr> request_count := request_count rate_record + 1,
                                              last_request := now \<rparr>) ledger1)
                else ledger1))"

text \<open>\<open>_rate_limit_response\<close>.\<close>

definition rate_limit_response :: "RateLimitMiddleware \<Rightarrow> string \<Rightarrow> response" where
  "rate_limit_response self ip =
     Response 429
       (RateLimitBody ''Rate limit exceeded''
          (''Too many requests from IP '' @ ip @ ''. Please try again later.'')
          (requests_per_minute self) (requests_per_hour self))"

text \<open>
  \<open>process_request\<close>: \<open>None\<close> lets the request through to the view, a response
  answers it, an exception leaves the middleware. The ledger after the call is the
  second component.
\<close>

definition process_request ::
  "RateLimitMiddleware \<Rightarrow> faults \<Rightarrow> Organization list \<Rightarrow> RateLimitRecord list \<Rightarrow> request
     \<Rightarrow> timestamp \<Rightarrow> (exn + response option) \<times> RateLimitRecord list" where
  "process_request self f orgs ledger req now =
     (if should_skip_rate_limiting req then (Inr None, ledger)
      else
        (let ip = get_client_ip req
         in case get_organization_from_request f orgs req of
              Inl e \<Rightarrow> (Inl e, ledger)
            | Inr organization \<Rightarrow>
                (case is_rate_limited self f ledger ip (map_option org_id organization) now of
                   (Inl e, ledger1) \<Rightarrow> (Inl e, ledger1)
                 | (Inr True, ledger1) \<Rightarrow> (Inr (Some (rate_limit_response self ip)), ledger1)
                 | (Inr False, ledger1) \<Rightarrow>
                     (Inr None,
                      record_request f ledger1 ip (map_option org_id organization) now))))"

text \<open>
  Two notions for stating properties of the ledger: the rows of one \<open>(ip, organization)\<close>
  key, and a key that has exactly one row, with a given count, a lower bound on its
  \<open>last_request\<close>, and a primary key no other row has.
\<close>

definition key_rows :: "string \<Rightarrow> uuid option \<Rightarrow> RateLimitRecord list \<Rightarrow> RateLimitRecord list" where
  "key_rows ip org ledger = filter (\<lambda>r. ip_address r = ip \<and> rl_organization r = org) ledger"

definition tracked ::
  "string \<Rightarrow> uuid option \<Rightarrow> RateLimitRecord list \<Rightarrow> int \<Rightarrow> timestamp \<Rightarrow> bool" where
  "tracked ip org ledger c lo =
     (case key_rows ip org ledger of
        [r] \<Rightarrow> request_count r = c \<and> lo \<le> last_request r
                \<and> list_all (\<lambda>x. rid x = rid r \<longrightarrow> x = r) ledger
      | _ \<Rightarrow> False)"

section \<open>Fixtures (hr\_backend/employee\_search/tests.py)\<close>

text \<open>
  The rows that \<open>APIEndpointsTest.setUp\<close> creates: two active organizations, a column
  configuration for the first, two employees in the first and one in the second.
\<close>

definition org1 :: Organization where
  "org1 = \<lparr> org_id = ''00000000-0000-4000-8000-0000000000a1'', org_name = ''Organization 1'', is_active = True \<rparr>"

definition org2 :: Organization where
  "org2 = \<lparr> org_id = ''00000000-0000-4000-8000-0000000000a2'', org_name = ''Organization 2'', is_active = True \<rparr>"

definition org1_config :: OrganizationConfig where
  "org1_config =
     \<lparr> cfg_organization = ''00000000-0000-4000-8000-0000000000a1'',
       visible_columns = [''first_name'', ''last_name'', ''email'', ''department''],
       column_order = [''first_name'', ''last_name'', ''email'', ''department''] \<rparr>"

definition alice :: Employee where
  "alice =
     \<lparr> emp_id = ''00000000-0000-4000-8000-0000000000e1'', emp_organization = ''00000000-0000-4000-8000-0000000000a1'',
       first_name = ''Alice'', last_name = ''Smith'', email = ''alice.smith@org1.com'',
       phone = None, department = ''Engineering'', position = ''Senior Engineer'',
       location = ''San Francisco'', status = ''active'', hire_date = ''2024-01-01'',
       created_at = ''2025-01-01T00:00:00Z'', updated_at = ''2025-01-01T00:00:00Z'' \<rparr>"

definition bob :: Employee where
  "bob =
     \<lparr> emp_id = ''00000000-0000-4000-8000-0000000000e2'', emp_organization = ''00000000-0000-4000-8000-0000000000a1'',
       first_name = ''Bob'', last_name = ''Johnson'', email = ''bob.johnson@org1.com'',
       phone = None, department = ''Marketing'', position = ''Manager'',
       location = ''New York'', status = ''active'', hire_date = ''2024-07-04'',
       created_at = ''2025-01-01T00:00:00Z'', updated_at = ''2025-01-01T00:00:00Z'' \<rparr>"

definition charlie :: Employee where
  "charlie =
     \<lparr> emp_id = ''00000000-0000-4000-8000-0000000000e3'', emp_organization = ''00000000-0000-4000-8000-0000000000a2'',
       first_name = ''Charlie'', last_name = ''Brown'', email = ''charlie.brown@org2.com'',
       phone = None, department = ''Sales'', position = ''Representative'',
       location = ''Chicago'', status = ''inactive'', hire_date = ''2024-10-02'',
       created_at = ''2025-01-01T00:00:00Z'', updated_at = ''2025-01-01T00:00:00Z'' \<rparr>"

definition test_db :: database where
  "test_db =
     \<lparr> organizations = [org1, org2],
       organization_configs = [org1_config],
       employees = [alice, bob, charlie] \<rparr>"

text \<open>A request with no query parameters.\<close>

definition no_params :: query_params where
  "no_params =
     \<lparr> q_search = None, q_department = None, q_position = None, q_location = None,
       q_status = None, q_page = None, q_page_size = None \<rparr>"

text \<open>
  Rate limiter fixtures: settings with three requests per minute, the search request of
  \<open>RateLimitTest\<close>, a health request, a forwarded configuration request, and a ledger
  with rows of two addresses, two organizations and different ages.
\<close>

definition rate_limit_settings :: settings where
  "rate_limit_settings =
     \<lparr> RATE_LIMIT_REQUESTS_PER_MINUTE = Some 3, RATE_LIMIT_REQUESTS_PER_HOUR = None \<rparr>"

definition search_request :: request where
  "search_request =
     \<lparr> path = ''/api/v1/organizations/00000000-0000-4000-8000-0000000000a1/employees/search/'',
       HTTP_X_FORWARDED_FOR = None, REMOTE_ADDR = Some ''127.0.0.1'' \<rparr>"

definition health_request :: request where
  "health_request =
     \<lparr> path = ''/api/v1/health/'', HTTP_X_FORWARDED_FOR = None,
       REMOTE_ADDR = Some ''127.0.0.1'' \<rparr>"

definition config_request :: request where
  "config_request =
     \<lparr> path = ''/api/v1/organizations/00000000-0000-4000-8000-0000000000a1/config/'',
       HTTP_X_FORWARDED_FOR = Some ''127.0.0.1, 10.1.1.1'', REMOTE_ADDR = Some ''10.1.1.1'' \<rparr>"

definition sample_ledger :: "RateLimitRecord list" where
  "sample_ledger =
     [\<lparr> rid = 1, ip_address = ''127.0.0.1'', rl_organization = None,
        request_count = 5, window_start = 0, last_request = 0 \<rparr>,
      \<lparr> rid = 2, ip_address = ''127.0.0.1'',
        rl_organization = Some ''00000000-0000-4000-8000-0000000000a2'',
        request_count = 2, window_start = 0, last_request = hours 1 \<rparr>,
      \<lparr> rid = 3, ip_address = ''127.0.0.1'', rl_organization = None,
        request_count = 1, window_start = hours 47, last_request = hours 47 \<rparr>,
      \<lparr> rid = 4, ip_address = ''10.0.0.9'', rl_organization = None,
        request_count = 7, window_start = 0, last_request = 0 \<rparr>]"

section \<open>Projection properties\<close>

lemma row_keys_to_representation:
  "row_keys (to_representation cols e) = set (dynamic_fields cols)"
  by (simp add: row_keys_def to_representation_def image_image)

lemma dynamic_fields_nonempty:
  "cols \<noteq> [] \<Longrightarrow> set (dynamic_fields cols) = set serializer_fields \<inter> allowed cols"
  by (auto simp: dynamic_fields_def)

text \<open>
  \<open>Employee.to_dict\<close>, which no view calls, keeps listed keys only: it does not add
  \<open>id\<close>.
\<close>

lemma to_dict_listed_keys_only:
  "cols \<noteq> [] \<Longrightarrow> dom (to_dict e cols) \<subseteq> set cols"
  by (auto simp: to_dict_def split: if_splits)

text \<open>
  C2. For every employee and every non-empty visible-columns list, the keys of the
  projected row lie in the visible columns, plus \<open>id\<close>, plus \<open>full_name\<close> when both
  \<open>first_name\<close> and \<open>last_name\<close> are visible.
\<close>

theorem projection_key_set_bound:
  "cols \<noteq> [] \<Longrightarrow>
   row_keys (to_representation cols e)
     \<subseteq> set cols \<union> {''id''}
       \<union> (if ''first_name'' \<in> set cols \<and> ''last_name'' \<in> set cols
          then {''full_name''} else {})"
  unfolding row_keys_to_representation
  by (auto simp: dynamic_fields_nonempty allowed_def Let_def split: if_splits)

theorem projection_key_set_bound_witness:
  "[''first_name'', ''email''] \<noteq> []
   \<and> row_keys (to_representation [''first_name'', ''email''] bob)
       \<subseteq> {''first_name'', ''email'', ''id''}"
  using projection_key_set_bound [of "[''first_name'', ''email'']" bob] by auto

text \<open>
  C5. For every employee and every non-empty visible-columns list, the row projected by
  the dynamic serializer has the key \<open>id\<close>, whether or not \<open>id\<close> is listed.
\<close>

theorem forced_id_inclusion:
  "cols \<noteq> [] \<Longrightarrow> ''id'' \<in> row_keys (to_representation cols e)"
  unfolding row_keys_to_representation
  by (simp add: dynamic_fields_nonempty allowed_def Let_def serializer_fields_def)

theorem forced_id_inclusion_witness:
  "[''first_name'', ''last_name''] \<noteq> []
   \<and> ''id'' \<in> row_keys (to_representation [''first_name'', ''last_name''] alice)"
  using forced_id_inclusion [of "[''first_name'', ''last_name'']" alice] by simp

text \<open>
  C6. For every employee and every non-empty visible-columns list drawn from the eight
  recognised keys, the projected row has the key \<open>full_name\<close> exactly when both
  \<open>first_name\<close> and \<open>last_name\<close> are listed.
\<close>

theorem synthetic_full_name:
  "cols \<noteq> [] \<Longrightarrow> set cols \<subseteq> set (map fst AVAILABLE_COLUMNS) \<Longrightarrow>
   (''full_name'' \<in> row_keys (to_representation cols e))
     = (''first_name'' \<in> set cols \<and> ''last_name'' \<in> set cols)"
  unfolding row_keys_to_representation
  by (auto simp: dynamic_fields_nonempty allowed_def Let_def serializer_fields_def
      AVAILABLE_COLUMNS_def)

theorem synthetic_full_name_witness:
  "[''first_name'', ''last_name'', ''email''] \<noteq> []
   \<and> set [''first_name'', ''last_name'', ''email''] \<subseteq> set (map fst AVAILABLE_COLUMNS)
   \<and> ''full_name'' \<in> row_keys (to_representation [''first_name'', ''last_name'', ''email''] alice)
   \<and> ''first_name'' \<in> set [''first_name'', ''last_name'', ''email'']
   \<and> ''last_name'' \<in> set [''first_name'', ''last_name'', ''email'']"
  using synthetic_full_name [of "[''first_name'', ''last_name'', ''email'']" alice]
  by (simp add: AVAILABLE_COLUMNS_def)

section \<open>Search view properties\<close>

lemma get_object_or_404_Inr:
  "get_object_or_404 db oid = Inr org \<Longrightarrow>
   org_id org = oid \<and> is_active org \<and> org \<in> set (organizations db)"
  unfolding get_object_or_404_def
  by (auto split: sum.splits exn.splits elim!: orm_get.elims dest: filter_eq_ConsD)

lemma search_queryset_subset:
  "set (search_queryset db org sd)
     \<subseteq> {e \<in> set (employees db). emp_organization e = org_id org}"
  by (auto simp: search_queryset_def Let_def)

lemma paginate_queryset_subset:
  "paginate_queryset ps q qs = Inr (Some pg) \<Longrightarrow> set (object_list pg) \<subseteq> set qs"
  unfolding paginate_queryset_def Let_def
  by (auto split: if_splits option.splits int_text.splits dest!: in_set_takeD in_set_dropD)

lemma search_employees_except_content:
  "results (content (search_employees_except e)) = []"
  by (cases e rule: search_employees_except.cases) (simp_all add: Response_def)

lemma search_employees_except_status:
  "status_code (search_employees_except e) \<noteq> 200"
  by (cases e rule: search_employees_except.cases) (simp_all add: Response_def)

text \<open>
  C1. Whatever the organization, the stored rows and the query parameters, every row in
  the results of a search response is the projection, over the columns the response
  reports, of a stored employee whose organization is the one named in the request.
\<close>

theorem tenant_isolation:
  "\<forall>r \<in> set (results (content (search_employees db organization_id q))).
     \<exists>e \<in> set (employees db). emp_organization e = organization_id \<and>
        (\<exists>cols. reported_columns (content (search_employees db organization_id q)) = Some cols
            \<and> r = to_representation cols e)"
proof (cases "get_object_or_404 db organization_id")
  case (Inl e)
  then show ?thesis
    by (simp add: search_employees_def search_employees_except_content)
next
  case (Inr org)
  from get_object_or_404_Inr[OF Inr] have oid: "org_id org = organization_id" by simp
  show ?thesis
  proof (cases "resolve_visible_columns db org")
    case (Inl e)
    then show ?thesis using Inr
      by (simp add: search_employees_def search_employees_except_content)
  next
    case cols: (Inr cols)
    show ?thesis
    proof (cases "is_valid q")
      case False
      then show ?thesis using Inr cols by (simp add: search_employees_def Response_def)
    next
      case True
      let ?qs = "search_queryset db org (validated_data q)"
      show ?thesis
      proof (cases "paginate_queryset (paginator_page_size (validated_data q)) q ?qs")
        case (Inl e)
        then show ?thesis using Inr cols True
          by (simp add: search_employees_def search_employees_except_content Let_def)
      next
        case pg: (Inr pgo)
        show ?thesis
        proof (cases pgo)
          case None
          then show ?thesis
            using Inr cols True pg search_queryset_subset[of db org "validated_data q"] oid
            by (auto simp: search_employees_def Response_def Let_def)
        next
          case (Some p)
          then show ?thesis
            using Inr cols True pg search_queryset_subset[of db org "validated_data q"] oid
              paginate_queryset_subset[of "paginator_page_size (validated_data q)" q ?qs p]
            by (auto simp: search_employees_def Response_def Let_def)
        qed
      qed
    qed
  qed
qed


section \<open>Fixture evaluation\<close>

lemma org1_found:
  "get_object_or_404 test_db ''00000000-0000-4000-8000-0000000000a1'' = Inr org1"
  by (simp add: get_object_or_404_def test_db_def org1_def org2_def)

lemma org2_found:
  "get_object_or_404 test_db ''00000000-0000-4000-8000-0000000000a2'' = Inr org2"
  by (simp add: get_object_or_404_def test_db_def org1_def org2_def)

lemma org1_columns:
  "resolve_visible_columns test_db org1
     = Inr [''first_name'', ''last_name'', ''email'', ''department'']"
  by (simp add: resolve_visible_columns_def related_config_def test_db_def org1_def
      org1_config_def get_default_columns_def)

lemma no_params_valid: "is_valid no_params"
  by (simp add: is_valid_def serializer_errors_def char_field_def choice_field_def
      integer_field_def field_errors_def no_params_def)

lemma no_params_data:
  "validated_data no_params =
     \<lparr> v_search = None, v_department = None, v_position = None, v_location = None,
       v_status = None, v_page = Some 1, v_page_size = Some 50 \<rparr>"
  by (simp add: validated_data_def char_field_def choice_field_def integer_field_def
      field_data_def no_params_def)

lemma org1_queryset:
  "search_queryset test_db org1 (validated_data no_params) = [bob, alice]"
  unfolding no_params_data
  by (simp add: search_queryset_def test_db_def org1_def alice_def bob_def charlie_def
      truthy_def Let_def)

lemma search_employees_page:
  assumes "get_object_or_404 db oid = Inr org"
    and "resolve_visible_columns db org = Inr cols"
    and "is_valid q"
    and "paginate_queryset (paginator_page_size (validated_data q)) q
           (search_queryset db org (validated_data q)) = Inr (Some pg)"
  shows "status_code (search_employees db oid q) = 200"
    and "results (content (search_employees db oid q))
           = map (to_representation cols) (object_list pg)"
  using assms by (simp_all add: search_employees_def Let_def Response_def)

lemma get_page_size_absent:
  "q_page_size q = None \<Longrightarrow> get_page_size ps q = ps"
  by (simp add: get_page_size_def)

lemma no_params_page_size: "paginator_page_size (validated_data no_params) = 50"
  by (simp add: no_params_data paginator_page_size_def)

lemma first_page_of_two:
  "q_page q = None \<Longrightarrow> get_page_size ps q = 50 \<Longrightarrow>
   paginate_queryset ps q [a, b]
     = Inr (Some \<lparr> object_list = [a, b], number = 1, page_count = 2, page_num_pages = 1 \<rparr>)"
  by (simp add: paginate_queryset_def num_pages_def Let_def)

lemma org1_page:
  "paginate_queryset (paginator_page_size (validated_data no_params)) no_params
     (search_queryset test_db org1 (validated_data no_params))
   = Inr (Some \<lparr> object_list = [bob, alice], number = 1, page_count = 2,
                   page_num_pages = 1 \<rparr>)"
  unfolding org1_queryset
  by (rule first_page_of_two)
    (simp_all add: no_params_page_size, simp_all add: no_params_def get_page_size_def)

lemma org1_search:
  "results (content (search_employees test_db ''00000000-0000-4000-8000-0000000000a1'' no_params))
    = map (to_representation [''first_name'', ''last_name'', ''email'', ''department'']) [bob, alice]"
  using search_employees_page(2)[OF org1_found org1_columns no_params_valid org1_page] by simp

theorem tenant_isolation_witness:
  "results (content (search_employees test_db ''00000000-0000-4000-8000-0000000000a1'' no_params))
      = [to_representation [''first_name'', ''last_name'', ''email'', ''department''] bob,
         to_representation [''first_name'', ''last_name'', ''email'', ''department''] alice]
   \<and> (\<exists>e \<in> set (employees test_db).
          emp_organization e = ''00000000-0000-4000-8000-0000000000a1''
          \<and> (\<exists>cols. reported_columns
                 (content (search_employees test_db ''00000000-0000-4000-8000-0000000000a1''
                    no_params)) = Some cols
               \<and> to_representation [''first_name'', ''last_name'', ''email'', ''department'']
                     bob = to_representation cols e))
   \<and> (\<exists>e \<in> set (employees test_db).
          emp_organization e = ''00000000-0000-4000-8000-0000000000a1''
          \<and> (\<exists>cols. reported_columns
                 (content (search_employees test_db ''00000000-0000-4000-8000-0000000000a1''
                    no_params)) = Some cols
               \<and> to_representation [''first_name'', ''last_name'', ''email'', ''department'']
                     alice = to_representation cols e))"
  using tenant_isolation [of test_db "''00000000-0000-4000-8000-0000000000a1''" no_params]
  by (simp add: org1_search)

section \<open>Status validation\<close>

lemma status_error:
  "q_status q = Some s \<Longrightarrow> s \<noteq> [] \<Longrightarrow> s \<notin> set (map fst STATUS_CHOICES) \<Longrightarrow>
   (''status'', invalid_choice s) \<in> set (serializer_errors q)"
  by (simp add: serializer_errors_def choice_field_def field_errors_def)

text \<open>
  C7, as amended. A search request whose \<open>status\<close> parameter is a non-empty text
  outside the four choices never gets a 200 response, and the serializer reports the
  error under the key \<open>status\<close>. When the organization of the path exists and is
  active and its column configuration is read without error, the response is the 400
  response carrying the serializer's errors; it is built from the parameters alone,
  without the employee query.
\<close>

theorem invalid_status_rejected:
  assumes "q_status q = Some s" and "s \<noteq> []"
    and "s \<notin> {''active'', ''inactive'', ''terminated'', ''on_leave''}"
  shows "status_code (search_employees db organization_id q) \<noteq> 200
    \<and> (''status'', invalid_choice s) \<in> set (serializer_errors q)
    \<and> (get_object_or_404 db organization_id = Inr org
         \<and> resolve_visible_columns db org = Inr cols
       \<longrightarrow> search_employees db organization_id q
           = Response 400
               (InvalidParametersBody ''Invalid search parameters'' (serializer_errors q)))"
proof -
  from assms have notin: "s \<notin> set (map fst STATUS_CHOICES)"
    by (simp add: STATUS_CHOICES_def)
  have err: "(''status'', invalid_choice s) \<in> set (serializer_errors q)"
    using status_error[OF assms(1,2) notin] .
  then have inv: "\<not> is_valid q" by (auto simp: is_valid_def)
  have "status_code (search_employees db organization_id q) \<noteq> 200"
    using inv search_employees_except_status
    by (simp add: search_employees_def Response_def split: sum.splits)
  moreover have "get_object_or_404 db organization_id = Inr org
         \<and> resolve_visible_columns db org = Inr cols
       \<longrightarrow> search_employees db organization_id q
           = Response 400
               (InvalidParametersBody ''Invalid search parameters'' (serializer_errors q))"
    using inv by (simp add: search_employees_def)
  ultimately show ?thesis using err by blast
qed

theorem invalid_status_rejected_witness:
  "q_status (no_params\<lparr>q_status := Some ''invalid_status''\<rparr>) = Some ''invalid_status''
   \<and> ''invalid_status'' \<noteq> []
   \<and> ''invalid_status'' \<notin> {''active'', ''inactive'', ''terminated'', ''on_leave''}
   \<and> get_object_or_404 test_db ''00000000-0000-4000-8000-0000000000a1'' = Inr org1
   \<and> resolve_visible_columns test_db org1
        = Inr [''first_name'', ''last_name'', ''email'', ''department'']
   \<and> search_employees test_db ''00000000-0000-4000-8000-0000000000a1''
        (no_params\<lparr>q_status := Some ''invalid_status''\<rparr>)
       = Response 400
           (InvalidParametersBody ''Invalid search parameters''
              [(''status'', invalid_choice ''invalid_status'')])"
proof -
  let ?q = "no_params\<lparr>q_status := Some ''invalid_status''\<rparr>"
  have e: "serializer_errors ?q = [(''status'', invalid_choice ''invalid_status'')]"
    by (simp add: serializer_errors_def char_field_def choice_field_def integer_field_def
        field_errors_def no_params_def STATUS_CHOICES_def)
  have a: "q_status ?q = Some ''invalid_status''" by simp
  have b: "''invalid_status'' \<noteq> []" by simp
  have c: "''invalid_status'' \<notin> {''active'', ''inactive'', ''terminated'', ''on_leave''}" by simp
  show ?thesis
    using invalid_status_rejected [OF a b c, of test_db
        "''00000000-0000-4000-8000-0000000000a1''" org1
        "[''first_name'', ''last_name'', ''email'', ''department'']"]
      org1_found org1_columns e c
    by simp
qed

text \<open>
  C7, as stated, fails at two requests. For an organization that does not exist the
  view answers 404 before it looks at the parameters. An empty \<open>status\<close> value
  counts as absent, so the request succeeds unfiltered.
\<close>

theorem status_validation_counterexample:
  "''bogus'' \<notin> {''active'', ''inactive'', ''terminated'', ''on_leave''}
   \<and> search_employees test_db ''00000000-0000-4000-8000-0000000000a3''
        (no_params\<lparr>q_status := Some ''bogus''\<rparr>)
       = Response 404 (ErrorBody ''Organization not found or inactive'')
   \<and> [] \<notin> {''active'', ''inactive'', ''terminated'', ''on_leave''}
   \<and> status_code (search_employees test_db ''00000000-0000-4000-8000-0000000000a1''
        (no_params\<lparr>q_status := Some []\<rparr>)) = 200"
proof -
  let ?q = "no_params\<lparr>q_status := Some []\<rparr>"
  have nf: "get_object_or_404 test_db ''00000000-0000-4000-8000-0000000000a3'' = Inl Http404"
    by (simp add: get_object_or_404_def test_db_def org1_def org2_def)
  have v: "is_valid ?q"
    by (simp add: is_valid_def serializer_errors_def char_field_def choice_field_def
        integer_field_def field_errors_def no_params_def)
  have d: "validated_data ?q = validated_data no_params"
    by (simp add: validated_data_def char_field_def choice_field_def no_params_def)
  have pg: "paginate_queryset (paginator_page_size (validated_data ?q)) ?q
     (search_queryset test_db org1 (validated_data ?q))
   = Inr (Some \<lparr> object_list = [bob, alice], number = 1, page_count = 2,
                   page_num_pages = 1 \<rparr>)"
    unfolding d org1_queryset
    by (rule first_page_of_two)
      (simp_all add: no_params_page_size, simp_all add: no_params_def get_page_size_def)
  have "status_code (search_employees test_db ''00000000-0000-4000-8000-0000000000a1'' ?q) = 200"
    by (rule search_employees_page(1)[OF org1_found org1_columns v pg])
  moreover have "search_employees test_db ''00000000-0000-4000-8000-0000000000a3''
        (no_params\<lparr>q_status := Some ''bogus''\<rparr>)
       = Response 404 (ErrorBody ''Organization not found or inactive'')"
    by (simp add: search_employees_def nf)
  ultimately show ?thesis by simp
qed

section \<open>Default visible columns\<close>

text \<open>
  C8. For an active organization whose configuration row has an empty visible-columns
  list, or that has no configuration row, the columns both views use are the canonical
  seven: the configuration view reports them, and a successful search reports them and
  projects every row over them.
\<close>

theorem default_visible_columns:
  assumes "get_object_or_404 db organization_id = Inr org"
    and "related_config db org = Inl (DoesNotExist OrganizationConfigModel)
         \<or> (\<exists>cfg. related_config db org = Inr cfg \<and> visible_columns cfg = [])"
  shows "resolve_visible_columns db org
           = Inr [''first_name'', ''last_name'', ''email'', ''department'',
                  ''position'', ''location'', ''status'']
    \<and> reported_columns (content (organization_config db organization_id))
           = Some [''first_name'', ''last_name'', ''email'', ''department'',
                   ''position'', ''location'', ''status'']
    \<and> (status_code (search_employees db organization_id q) = 200 \<longrightarrow>
         reported_columns (content (search_employees db organization_id q))
           = Some [''first_name'', ''last_name'', ''email'', ''department'',
                   ''position'', ''location'', ''status'']
         \<and> (\<forall>r \<in> set (results (content (search_employees db organization_id q))).
               \<exists>e. r = to_representation
                         [''first_name'', ''last_name'', ''email'', ''department'',
                          ''position'', ''location'', ''status''] e))"
proof -
  let ?seven = "[''first_name'', ''last_name'', ''email'', ''department'',
                  ''position'', ''location'', ''status'']"
  have rv: "resolve_visible_columns db org = Inr ?seven"
    using assms(2)
    by (auto simp: resolve_visible_columns_def get_default_columns_def default_columns_def)
  have cfg: "reported_columns (content (organization_config db organization_id)) = Some ?seven"
    using assms
    by (auto simp: organization_config_def get_default_columns_def default_columns_def Response_def)
  have srch: "status_code (search_employees db organization_id q) = 200 \<longrightarrow>
         reported_columns (content (search_employees db organization_id q)) = Some ?seven
         \<and> (\<forall>r \<in> set (results (content (search_employees db organization_id q))).
               \<exists>e. r = to_representation ?seven e)"
    using assms(1) rv search_employees_except_status
    by (auto simp: search_employees_def Response_def Let_def split: sum.splits option.splits)
  show ?thesis using rv cfg srch by blast
qed


theorem default_visible_columns_witness:
  "get_object_or_404 test_db ''00000000-0000-4000-8000-0000000000a2'' = Inr org2
   \<and> related_config test_db org2 = Inl (DoesNotExist OrganizationConfigModel)
   \<and> reported_columns
        (content (organization_config test_db ''00000000-0000-4000-8000-0000000000a2''))
       = Some [''first_name'', ''last_name'', ''email'', ''department'',
               ''position'', ''location'', ''status'']"
proof -
  have c: "related_config test_db org2 = Inl (DoesNotExist OrganizationConfigModel)"
    by (simp add: related_config_def test_db_def org2_def org1_config_def)
  then have d: "related_config test_db org2 = Inl (DoesNotExist OrganizationConfigModel)
         \<or> (\<exists>cfg. related_config test_db org2 = Inr cfg \<and> visible_columns cfg = [])"
    by simp
  show ?thesis
    using default_visible_columns [OF org2_found d] org2_found c by simp
qed

section \<open>Pages beyond the last\<close>

lemma valid_page_size:
  assumes "is_valid q"
  shows "1 \<le> get_page_size (paginator_page_size (validated_data q)) q
     \<and> get_page_size (paginator_page_size (validated_data q)) q \<le> 100"
proof -
  from assms have e: "field_errors ''page_size'' (integer_field 1 (Some 100) 50 (q_page_size q)) = []"
    by (simp add: is_valid_def serializer_errors_def)
  have v: "v_page_size (validated_data q)
             = field_data (integer_field 1 (Some 100) 50 (q_page_size q))"
    by (simp add: validated_data_def)
  show ?thesis
  proof (cases "q_page_size q")
    case None
    then show ?thesis
      by (simp add: get_page_size_def paginator_page_size_def v integer_field_def field_data_def)
  next
    case (Some t)
    then show ?thesis using e
      by (cases t)
        (auto simp: get_page_size_def paginator_page_size_def v integer_field_def field_data_def
          field_errors_def max_page_size_def Let_def split: if_splits)
  qed
qed

text \<open>
  C10. When the organization exists and is active, its columns are resolved, the
  parameters are valid, and the \<open>page\<close> parameter is an integer of at least 1 that
  exceeds the number of pages of the filtered result, pagination raises the framework's
  not-found exception, no earlier \<open>except\<close> clause matches it, and the response is
  500 with the body \<open>{'error': 'Internal server error'}\<close>.
\<close>

theorem page_out_of_range:
  assumes "get_object_or_404 db organization_id = Inr org"
    and "resolve_visible_columns db org = Inr cols"
    and "is_valid q"
    and "q_page q = Some (IntText n)" and "1 \<le> n"
    and "num_pages (int (length (search_queryset db org (validated_data q))))
           (get_page_size (paginator_page_size (validated_data q)) q) < n"
  shows "paginate_queryset (paginator_page_size (validated_data q)) q
           (search_queryset db org (validated_data q)) = Inl NotFound
    \<and> search_employees db organization_id q = Response 500 (ErrorBody ''Internal server error'')"
proof -
  from valid_page_size[OF assms(3)]
  have ps: "get_page_size (paginator_page_size (validated_data q)) q \<noteq> 0" by simp
  have pq: "paginate_queryset (paginator_page_size (validated_data q)) q
           (search_queryset db org (validated_data q)) = Inl NotFound"
    using ps assms(4,5,6) by (simp add: paginate_queryset_def Let_def)
  then show ?thesis using assms(1,2,3) by (simp add: search_employees_def Let_def)
qed

theorem page_out_of_range_witness:
  "get_object_or_404 test_db ''00000000-0000-4000-8000-0000000000a1'' = Inr org1
   \<and> resolve_visible_columns test_db org1
        = Inr [''first_name'', ''last_name'', ''email'', ''department'']
   \<and> is_valid (no_params\<lparr>q_page := Some (IntText 2)\<rparr>)
   \<and> (1::int) \<le> 2
   \<and> search_employees test_db ''00000000-0000-4000-8000-0000000000a1''
        (no_params\<lparr>q_page := Some (IntText 2)\<rparr>)
       = Response 500 (ErrorBody ''Internal server error'')"
proof -
  let ?q = "no_params\<lparr>q_page := Some (IntText 2)\<rparr>"
  have a3: "is_valid ?q"
    by (simp add: is_valid_def serializer_errors_def char_field_def choice_field_def
        integer_field_def field_errors_def no_params_def)
  have a4: "q_page ?q = Some (IntText 2)" by simp
  have d: "validated_data ?q =
     \<lparr> v_search = None, v_department = None, v_position = None, v_location = None,
       v_status = None, v_page = Some 2, v_page_size = Some 50 \<rparr>"
    by (simp add: validated_data_def char_field_def choice_field_def integer_field_def
        field_data_def no_params_def)
  have qs: "search_queryset test_db org1 (validated_data ?q) = [bob, alice]"
    unfolding d
    by (simp add: search_queryset_def test_db_def org1_def alice_def bob_def charlie_def
        truthy_def Let_def)
  have ps: "get_page_size (paginator_page_size (validated_data ?q)) ?q = 50"
    unfolding d
    by (simp add: get_page_size_def paginator_page_size_def no_params_def)
  have a6: "num_pages (int (length (search_queryset test_db org1 (validated_data ?q))))
           (get_page_size (paginator_page_size (validated_data ?q)) ?q) < 2"
    unfolding ps qs by (simp add: num_pages_def)
  show ?thesis
    using page_out_of_range [OF org1_found org1_columns a3 a4 _ a6] org1_found org1_columns a3
    by simp
qed

section \<open>Rate limiter properties\<close>

lemma no_faults_False: "no_faults c = False"
  by (simp add: no_faults_def)

lemma rid_less_next_rid: "x \<in> set ledger \<Longrightarrow> rid x < next_rid ledger"
proof -
  assume "x \<in> set ledger"
  then have "rid x \<in> set (0 # map rid ledger)" by simp
  then have "rid x \<le> Max (set (0 # map rid ledger))" by (intro Max_ge) simp_all
  moreover have "fold max (map rid ledger) 0 = Max (set (0 # map rid ledger))"
    by (rule Max.set_eq_fold[symmetric])
  ultimately show ?thesis unfolding next_rid_def by linarith
qed

lemma key_rows_filter: "key_rows ip org (filter P l) = filter P (key_rows ip org l)"
  by (auto simp: key_rows_def intro: filter_cong)

lemma key_rows_member:
  "r \<in> set (key_rows ip org l) \<Longrightarrow> ip_address r = ip \<and> rl_organization r = org"
  by (simp add: key_rows_def)

lemma key_rows_cleanup_empty:
  "key_rows ip org l = [] \<Longrightarrow> key_rows ip org (cleanup_old_records f l ip' now) = []"
  by (simp add: cleanup_old_records_def key_rows_filter Let_def)

lemma tracked_cleanup:
  assumes "tracked ip org l c lo" "now - minutes 1 \<le> lo"
  shows "tracked ip org (cleanup_old_records f l ip' now) c lo"
proof -
  from assms(1) obtain r where r: "key_rows ip org l = [r]" "request_count r = c"
    "lo \<le> last_request r" "list_all (\<lambda>x. rid x = rid r \<longrightarrow> x = r) l"
    by (auto simp: tracked_def split: list.splits)
  have "key_rows ip org (cleanup_old_records f l ip' now) = [r]"
    using r(1,3) assms(2)
    by (simp add: cleanup_old_records_def key_rows_filter Let_def minutes_def hours_def)
  moreover have "list_all (\<lambda>x. rid x = rid r \<longrightarrow> x = r) (cleanup_old_records f l ip' now)"
    using r(4) by (auto simp: cleanup_old_records_def Let_def list_all_iff)
  ultimately show ?thesis using r(2,3) by (simp add: tracked_def)
qed

lemma count_tracked:
  assumes "key_rows ip org l = [r]" "since \<le> last_request r"
  shows "count_requests_since False l ip org since = request_count r"
proof -
  have "filter (\<lambda>r. ip_address r = ip \<and> rl_organization r = org \<and> since \<le> last_request r) l
      = filter (\<lambda>r. since \<le> last_request r) (key_rows ip org l)"
    by (auto simp: key_rows_def intro: filter_cong)
  then show ?thesis using assms by (simp add: count_requests_since_def)
qed

lemma get_or_create_tracked:
  "key_rows ip org l = [r] \<Longrightarrow> get_or_create l ip org c0 now = Inr (r, False, l)"
  by (simp add: get_or_create_def key_rows_def)

lemma is_rate_limited_tracked:
  assumes "tracked ip org l c lo" "now - minutes 1 \<le> lo"
  shows "is_rate_limited self no_faults l ip org now
     = (Inr (requests_per_minute self \<le> c \<or> requests_per_hour self \<le> c),
        cleanup_old_records no_faults l ip now)"
proof -
  let ?l1 = "cleanup_old_records no_faults l ip now"
  from tracked_cleanup[OF assms, of no_faults ip] obtain r where
    r: "key_rows ip org ?l1 = [r]" "request_count r = c" "lo \<le> last_request r"
    by (auto simp: tracked_def split: list.splits)
  have m: "count_requests_since False ?l1 ip org (now - minutes 1) = c"
    using count_tracked[OF r(1), of "now - minutes 1"] r(2,3) assms(2) by simp
  have h: "count_requests_since False ?l1 ip org (now - hours 1) = c"
    using count_tracked[OF r(1), of "now - hours 1"] r(2,3) assms(2)
    by (simp add: minutes_def hours_def)
  show ?thesis
    using m h by (simp add: is_rate_limited_def get_or_create_tracked[OF r(1)] no_faults_False Let_def)
qed

lemma key_rows_save:
  assumes "key_rows ip org l = [r]" "list_all (\<lambda>x. rid x = rid r \<longrightarrow> x = r) l"
    "rid r' = rid r" "ip_address r' = ip" "rl_organization r' = org"
  shows "key_rows ip org (save r' l) = [r'] \<and> list_all (\<lambda>x. rid x = rid r' \<longrightarrow> x = r') (save r' l)"
  using assms
proof (induction l)
  case Nil
  then show ?case by (simp add: key_rows_def)
next
  case (Cons a l)
  have "r \<in> set (key_rows ip org (a # l))" using Cons.prems(1) by simp
  then have kr: "ip_address r = ip \<and> rl_organization r = org"
    by (rule key_rows_member)
  show ?case
  proof (cases "a = r")
    case True
    have rest: "key_rows ip org l = []" using Cons.prems(1) True kr
      by (simp add: key_rows_def)
    have "\<forall>x\<in>set l. rid x = rid r \<longrightarrow> x = r" using Cons.prems(2) by (simp add: list_all_iff)
    moreover have "r \<notin> set l" using rest kr
      by (auto simp: key_rows_def filter_empty_conv)
    ultimately have nor: "\<forall>x\<in>set l. rid x \<noteq> rid r" by blast
    then have "save r' l = l" using Cons.prems(3) by (simp add: save_def map_idI)
    then show ?thesis using True rest Cons.prems nor
      by (simp add: save_def key_rows_def list_all_iff)
  next
    case False
    then have nrid: "rid a \<noteq> rid r" using Cons.prems(2) by auto
    have nk: "\<not> (ip_address a = ip \<and> rl_organization a = org)"
    proof
      assume "ip_address a = ip \<and> rl_organization a = org"
      then have "key_rows ip org (a # l) = a # key_rows ip org l" by (simp add: key_rows_def)
      then show False using Cons.prems(1) False by simp
    qed
    then have "key_rows ip org l = [r]" using Cons.prems(1) by (auto simp: key_rows_def)
    from Cons.IH[OF this _ Cons.prems(3,4,5)] Cons.prems(2)
    have "key_rows ip org (save r' l) = [r'] \<and> list_all (\<lambda>x. rid x = rid r' \<longrightarrow> x = r') (save r' l)"
      by simp
    then show ?thesis using nrid nk Cons.prems(3)
      by (simp add: save_def key_rows_def)
  qed
qed

lemma record_request_tracked:
  assumes "tracked ip org l c lo" "lo \<le> now"
  shows "tracked ip org (record_request no_faults l ip org now) (c + 1) lo"
proof -
  from assms(1) obtain r where r: "key_rows ip org l = [r]" "request_count r = c"
    "lo \<le> last_request r" "list_all (\<lambda>x. rid x = rid r \<longrightarrow> x = r) l"
    by (auto simp: tracked_def split: list.splits)
  have kr: "ip_address r = ip \<and> rl_organization r = org"
  proof -
    have "r \<in> set (key_rows ip org l)" using r(1) by simp
    then show ?thesis by (rule key_rows_member)
  qed
  let ?r' = "r\<lparr> request_count := request_count r + 1, last_request := now \<rparr>"
  have eq: "record_request no_faults l ip org now = save ?r' l"
    by (simp add: record_request_def no_faults_False get_or_create_tracked[OF r(1)])
  from key_rows_save[OF r(1) r(4), of ?r'] kr
  have "key_rows ip org (save ?r' l) = [?r'] \<and> list_all (\<lambda>x. rid x = rid ?r' \<longrightarrow> x = ?r') (save ?r' l)"
    by simp
  then show ?thesis unfolding eq using r(2) assms(2) by (simp add: tracked_def)
qed

lemma get_or_create_fresh:
  assumes "key_rows ip org l = []"
  shows "get_or_create l ip org c0 now
      = Inr (\<lparr> rid = next_rid l, ip_address = ip, rl_organization = org,
                request_count = c0, window_start = now, last_request = now \<rparr>, True,
             l @ [\<lparr> rid = next_rid l, ip_address = ip, rl_organization = org,
                request_count = c0, window_start = now, last_request = now \<rparr>])"
  using assms by (simp add: get_or_create_def key_rows_def Let_def)

lemma tracked_fresh:
  assumes "key_rows ip org l = []"
  shows "tracked ip org
           (l @ [\<lparr> rid = next_rid l, ip_address = ip, rl_organization = org,
                request_count = c0, window_start = now, last_request = now \<rparr>]) c0 now"
proof -
  have "\<forall>x\<in>set l. rid x \<noteq> next_rid l" using rid_less_next_rid by fastforce
  then show ?thesis
    using assms by (simp add: tracked_def key_rows_def list_all_iff)
qed

lemma is_rate_limited_fresh:
  assumes "key_rows ip org l = []"
  shows "\<exists>l'. is_rate_limited self no_faults l ip org now
     = (Inr (requests_per_minute self \<le> 0 \<or> requests_per_hour self \<le> 0), l')
     \<and> tracked ip org l' 0 now"
proof -
  let ?l1 = "cleanup_old_records no_faults l ip now"
  let ?r = "\<lparr> rid = next_rid ?l1, ip_address = ip, rl_organization = org,
                request_count = 0, window_start = now, last_request = now \<rparr>"
  have e: "key_rows ip org ?l1 = []" using assms by (rule key_rows_cleanup_empty)
  note g = get_or_create_fresh[OF e, of 0 now]
  note f = tracked_fresh[OF e, of 0 now]
  have kr: "key_rows ip org (?l1 @ [?r]) = [?r]"
    using e by (simp add: key_rows_def)
  have m: "count_requests_since False (?l1 @ [?r]) ip org (now - minutes 1) = 0"
    using count_tracked[OF kr, of "now - minutes 1"] by (simp add: minutes_def)
  have h: "count_requests_since False (?l1 @ [?r]) ip org (now - hours 1) = 0"
    using count_tracked[OF kr, of "now - hours 1"] by (simp add: hours_def)
  have "is_rate_limited self no_faults l ip org now
     = (Inr (requests_per_minute self \<le> 0 \<or> requests_per_hour self \<le> 0), ?l1 @ [?r])"
    using m h by (simp add: is_rate_limited_def g no_faults_False Let_def)
  then show ?thesis using f by blast
qed

lemma process_request_tracked:
  assumes "\<not> should_skip_rate_limiting req"
    and "get_organization_from_request no_faults orgs req = Inr organization"
    and "tracked (get_client_ip req) (map_option org_id organization) l c lo"
    and "now - minutes 1 \<le> lo" and "lo \<le> now"
  shows "\<exists>l'. process_request self no_faults orgs l req now
      = (if requests_per_minute self \<le> c \<or> requests_per_hour self \<le> c
         then Inr (Some (rate_limit_response self (get_client_ip req))) else Inr None, l')
     \<and> tracked (get_client_ip req) (map_option org_id organization) l'
          (if requests_per_minute self \<le> c \<or> requests_per_hour self \<le> c then c else c + 1) lo"
proof -
  let ?ip = "get_client_ip req" and ?org = "map_option org_id organization"
  note lim = is_rate_limited_tracked[OF assms(3,4), of self]
  note tc = tracked_cleanup[OF assms(3,4), of no_faults ?ip]
  show ?thesis
  proof (cases "requests_per_minute self \<le> c \<or> requests_per_hour self \<le> c")
    case True
    then show ?thesis using assms(1,2) lim tc
      by (simp add: process_request_def Let_def)
  next
    case False
    then show ?thesis using assms(1,2) lim record_request_tracked[OF tc assms(5)]
      by (simp add: process_request_def Let_def)
  qed
qed

lemma process_request_fresh:
  assumes "\<not> should_skip_rate_limiting req"
    and "get_organization_from_request no_faults orgs req = Inr organization"
    and "key_rows (get_client_ip req) (map_option org_id organization) l = []"
  shows "\<exists>l'. process_request self no_faults orgs l req now
      = (if requests_per_minute self \<le> 0 \<or> requests_per_hour self \<le> 0
         then Inr (Some (rate_limit_response self (get_client_ip req))) else Inr None, l')
     \<and> tracked (get_client_ip req) (map_option org_id organization) l'
          (if requests_per_minute self \<le> 0 \<or> requests_per_hour self \<le> 0 then 0 else 1) now"
proof -
  let ?ip = "get_client_ip req" and ?org = "map_option org_id organization"
  from is_rate_limited_fresh[OF assms(3), of self now] obtain l1 where
    l1: "is_rate_limited self no_faults l ?ip ?org now
     = (Inr (requests_per_minute self \<le> 0 \<or> requests_per_hour self \<le> 0), l1)"
     "tracked ?ip ?org l1 0 now" by blast
  show ?thesis
  proof (cases "requests_per_minute self \<le> 0 \<or> requests_per_hour self \<le> 0")
    case True
    then show ?thesis using assms(1,2) l1
      by (simp add: process_request_def Let_def)
  next
    case False
    then show ?thesis using assms(1,2) l1 record_request_tracked[OF l1(2), of now]
      by (simp add: process_request_def Let_def)
  qed
qed

lemma fourth_request_denied:
  assumes "requests_per_minute self = 3"
    and "list_all (\<lambda>r. \<not> should_skip_rate_limiting r \<and> get_client_ip r = ip
            \<and> get_organization_from_request no_faults orgs r = Inr organization)
           [r1, r2, r3, r4]"
    and "key_rows ip (map_option org_id organization) l0 = []"
    and "t1 \<le> t2" "t2 \<le> t3" "t3 \<le> t4" "t4 \<le> t1 + minutes 1"
  shows "(let l1 = snd (process_request self no_faults orgs l0 r1 t1);
              l2 = snd (process_request self no_faults orgs l1 r2 t2);
              l3 = snd (process_request self no_faults orgs l2 r3 t3)
          in fst (process_request self no_faults orgs l3 r4 t4))
         = Inr (Some (Response 429
                 (RateLimitBody ''Rate limit exceeded''
                    (''Too many requests from IP '' @ ip @ ''. Please try again later.'')
                    3 (requests_per_hour self))))"
proof -
  let ?org = "map_option org_id organization"
  let ?lim = "\<lambda>c. requests_per_minute self \<le> c \<or> requests_per_hour self \<le> c"
  let ?c1 = "if ?lim 0 then 0 else (1::int)"
  let ?c2 = "if ?lim ?c1 then ?c1 else ?c1 + 1"
  let ?c3 = "if ?lim ?c2 then ?c2 else ?c2 + 1"
  from assms(2) have
    n1: "\<not> should_skip_rate_limiting r1" and i1: "get_client_ip r1 = ip"
      and o1: "get_organization_from_request no_faults orgs r1 = Inr organization" and
    n2: "\<not> should_skip_rate_limiting r2" and i2: "get_client_ip r2 = ip"
      and o2: "get_organization_from_request no_faults orgs r2 = Inr organization" and
    n3: "\<not> should_skip_rate_limiting r3" and i3: "get_client_ip r3 = ip"
      and o3: "get_organization_from_request no_faults orgs r3 = Inr organization" and
    n4: "\<not> should_skip_rate_limiting r4" and i4: "get_client_ip r4 = ip"
      and o4: "get_organization_from_request no_faults orgs r4 = Inr organization"
    by simp_all
  have w2: "t2 - minutes 1 \<le> t1" "t1 \<le> t2" using assms(4-7) by auto
  have w3: "t3 - minutes 1 \<le> t1" "t1 \<le> t3" using assms(4-7) by auto
  have w4: "t4 - minutes 1 \<le> t1" "t1 \<le> t4" using assms(4-7) by auto
  from process_request_fresh[OF n1 o1, unfolded i1, OF assms(3), of self t1] obtain l1 where
    s1: "process_request self no_faults orgs l0 r1 t1
           = (if ?lim 0 then Inr (Some (rate_limit_response self ip)) else Inr None, l1)"
      "tracked ip ?org l1 ?c1 t1" by blast
  from process_request_tracked[OF n2 o2, unfolded i2, OF s1(2) w2, of self] obtain l2 where
    s2: "process_request self no_faults orgs l1 r2 t2
           = (if ?lim ?c1 then Inr (Some (rate_limit_response self ip)) else Inr None, l2)"
      "tracked ip ?org l2 ?c2 t1" by blast
  from process_request_tracked[OF n3 o3, unfolded i3, OF s2(2) w3, of self] obtain l3 where
    s3: "process_request self no_faults orgs l2 r3 t3
           = (if ?lim ?c2 then Inr (Some (rate_limit_response self ip)) else Inr None, l3)"
      "tracked ip ?org l3 ?c3 t1" by blast
  from process_request_tracked[OF n4 o4, unfolded i4, OF s3(2) w4, of self] obtain l4 where
    s4: "process_request self no_faults orgs l3 r4 t4
           = (if ?lim ?c3 then Inr (Some (rate_limit_response self ip)) else Inr None, l4)"
    by blast
  have lim: "?lim ?c3" using assms(1) by auto
  have "fst (process_request self no_faults orgs l3 r4 t4)
          = Inr (Some (rate_limit_response self ip))"
    unfolding s4 using lim by simp
  moreover have "snd (process_request self no_faults orgs l0 r1 t1) = l1"
    unfolding s1 by simp
  moreover have "snd (process_request self no_faults orgs l1 r2 t2) = l2"
    unfolding s2 by simp
  moreover have "snd (process_request self no_faults orgs l2 r3 t3) = l3"
    unfolding s3 by simp
  ultimately show ?thesis using assms(1)
    by (simp add: rate_limit_response_def Let_def)
qed

lemma health_skips:
  "startswith (path req) ''/api/v1/health/'' \<Longrightarrow> should_skip_rate_limiting req"
  by (simp add: should_skip_rate_limiting_def skip_paths_def)

text \<open>
  C3. With \<open>requests_per_minute\<close> configured to 3 and a working store: four requests
  to rate-limited paths from one client address and for one organization (or none), at
  non-decreasing times no more than one minute apart, starting from a ledger that has
  no row for that address and organization, end with the fourth answered 429, the body
  carrying 3 and the configured hourly limit. A request whose path starts with the
  health prefix is let through and leaves the ledger as it was, whatever the ledger,
  the time and the state of the store.
\<close>

theorem rate_limit_threshold_and_exemption:
  assumes "RATE_LIMIT_REQUESTS_PER_MINUTE st = Some 3"
  shows "(list_all (\<lambda>r. \<not> should_skip_rate_limiting r \<and> get_client_ip r = ip
             \<and> get_organization_from_request no_faults orgs r = Inr organization)
            [r1, r2, r3, r4]
          \<and> key_rows ip (map_option org_id organization) l0 = []
          \<and> t1 \<le> t2 \<and> t2 \<le> t3 \<and> t3 \<le> t4 \<and> t4 \<le> t1 + minutes 1
        \<longrightarrow> (let l1 = snd (process_request (init st) no_faults orgs l0 r1 t1);
                 l2 = snd (process_request (init st) no_faults orgs l1 r2 t2);
                 l3 = snd (process_request (init st) no_faults orgs l2 r3 t3)
             in fst (process_request (init st) no_faults orgs l3 r4 t4))
            = Inr (Some (Response 429
                 (RateLimitBody ''Rate limit exceeded''
                    (''Too many requests from IP '' @ ip @ ''. Please try again later.'')
                    3 (requests_per_hour (init st))))))
    \<and> (startswith (path h) ''/api/v1/health/''
        \<longrightarrow> process_request (init st) f orgs l h t = (Inr None, l))"
proof -
  have rpm: "requests_per_minute (init st) = 3" using assms by (simp add: init_def)
  have health: "startswith (path h) ''/api/v1/health/''
        \<longrightarrow> process_request (init st) f orgs l h t = (Inr None, l)"
    using health_skips[of h] by (simp add: process_request_def)
  show ?thesis
    using fourth_request_denied[OF rpm, of ip orgs organization r1 r2 r3 r4 l0 t1 t2 t3 t4] health
    by blast
qed

text \<open>
  C9. When the delete succeeds, the rows removed by the pruning step for client
  address \<open>p\<close> are exactly those with that address and a \<open>last_request\<close> more than
  24 hours before now, whatever their organization; the rows with another address or a
  \<open>last_request\<close> inside the horizon stay as they were, in order; and the rate-limit
  check continues from the pruned ledger.
\<close>

theorem pruning_scope_and_frame:
  assumes "\<not> f CleanupDelete"
  shows "set (cleanup_old_records f ledger p now)
           = set ledger - {r. ip_address r = p \<and> last_request r < now - hours 24}
    \<and> filter (\<lambda>r. ip_address r \<noteq> p \<or> now - hours 24 \<le> last_request r)
          (cleanup_old_records f ledger p now)
        = filter (\<lambda>r. ip_address r \<noteq> p \<or> now - hours 24 \<le> last_request r) ledger
    \<and> (\<exists>rest. snd (is_rate_limited self f ledger p org now)
                 = cleanup_old_records f ledger p now @ rest)"
proof -
  have a: "set (cleanup_old_records f ledger p now)
           = set ledger - {r. ip_address r = p \<and> last_request r < now - hours 24}"
    using assms by (auto simp: cleanup_old_records_def Let_def)
  have b: "filter (\<lambda>r. ip_address r \<noteq> p \<or> now - hours 24 \<le> last_request r)
          (cleanup_old_records f ledger p now)
        = filter (\<lambda>r. ip_address r \<noteq> p \<or> now - hours 24 \<le> last_request r) ledger"
    using assms by (auto simp: cleanup_old_records_def Let_def intro: filter_cong)
  have c: "\<exists>rest. snd (is_rate_limited self f ledger p org now)
                 = cleanup_old_records f ledger p now @ rest"
    by (auto simp: is_rate_limited_def get_or_create_def Let_def split: list.splits)
  show ?thesis using a b c by blast
qed

text \<open>
  Every other storage call is guarded, apart from the organization lookup: a database
  error can leave the middleware only from these two calls.
\<close>

lemma get_organization_database_error:
  "get_organization_from_request f orgs req = Inl DatabaseError \<Longrightarrow> f OrganizationGet"
  unfolding get_organization_from_request_def Let_def
  by (auto split: if_splits option.splits sum.splits exn.splits elim!: orm_get.elims)

lemma is_rate_limited_database_error:
  "fst (is_rate_limited self f l ip org now) = Inl DatabaseError \<Longrightarrow> f CheckGetOrCreate"
  unfolding is_rate_limited_def get_or_create_def Let_def
  by (auto split: if_splits list.splits)

lemma database_error_sources:
  assumes "fst (process_request self f orgs l req now) = Inl DatabaseError"
  shows "f OrganizationGet \<or> f CheckGetOrCreate"
proof (cases "get_organization_from_request f orgs req")
  case (Inl e)
  then show ?thesis using assms get_organization_database_error[of f orgs req]
    by (auto simp: process_request_def Let_def split: if_splits)
next
  case (Inr organization)
  obtain res l1 where
    r: "is_rate_limited self f l (get_client_ip req) (map_option org_id organization) now
          = (res, l1)"
    by (cases "is_rate_limited self f l (get_client_ip req)
                 (map_option org_id organization) now")
  then have "res = Inl DatabaseError" using assms Inr
    by (auto simp: process_request_def Let_def split: if_splits sum.splits bool.splits)
  then show ?thesis
    using is_rate_limited_database_error[of self f l "get_client_ip req"
        "map_option org_id organization" now] r by simp
qed

section \<open>Rate limiter fixture evaluation\<close>

lemma search_request_not_skipped: "\<not> should_skip_rate_limiting search_request"
  by (simp add: should_skip_rate_limiting_def skip_paths_def search_request_def startswith_def)

lemma search_request_ip: "get_client_ip search_request = ''127.0.0.1''"
  by (simp add: get_client_ip_def search_request_def)

lemma search_request_uuid:
  "uuid_of_text ''00000000-0000-4000-8000-0000000000a1''
     = Some ''00000000-0000-4000-8000-0000000000a1''"
  by (simp add: uuid_of_text_def strip_chars_def is_hex_def lower_def lower_char_def Let_def)

lemma search_request_parts:
  "split_on (CHR ''/'') (strip_chars (\<lambda>c. c = CHR ''/'') (path search_request))
     = [''api'', ''v1'', ''organizations'', ''00000000-0000-4000-8000-0000000000a1'',
        ''employees'', ''search'']"
  by (simp add: search_request_def strip_chars_def)

lemma search_request_organization:
  "get_organization_from_request no_faults (organizations test_db) search_request
     = Inr (Some org1)"
  by (simp add: get_organization_from_request_def search_request_parts search_request_uuid
      no_faults_False test_db_def org1_def org2_def Let_def)

lemma config_request_facts:
  "\<not> should_skip_rate_limiting config_request"
  "get_client_ip config_request = ''127.0.0.1''"
  "get_organization_from_request no_faults (organizations test_db) config_request
     = Inr (Some org1)"
proof -
  show "\<not> should_skip_rate_limiting config_request"
    by (simp add: should_skip_rate_limiting_def skip_paths_def config_request_def startswith_def)
  show "get_client_ip config_request = ''127.0.0.1''"
    by (simp add: get_client_ip_def config_request_def strip_def strip_chars_def is_space_def)
  have parts: "split_on (CHR ''/'') (strip_chars (\<lambda>c. c = CHR ''/'') (path config_request))
     = [''api'', ''v1'', ''organizations'', ''00000000-0000-4000-8000-0000000000a1'',
        ''config'']"
    by (simp add: config_request_def strip_chars_def)
  show "get_organization_from_request no_faults (organizations test_db) config_request
     = Inr (Some org1)"
    by (simp add: get_organization_from_request_def parts search_request_uuid
      no_faults_False test_db_def org1_def org2_def Let_def)
qed

theorem rate_limit_threshold_and_exemption_witness:
  "RATE_LIMIT_REQUESTS_PER_MINUTE rate_limit_settings = Some 3
   \<and> list_all (\<lambda>r. \<not> should_skip_rate_limiting r \<and> get_client_ip r = ''127.0.0.1''
         \<and> get_organization_from_request no_faults (organizations test_db) r
             = Inr (Some org1))
        [search_request, config_request, search_request, search_request]
   \<and> key_rows ''127.0.0.1'' (map_option org_id (Some org1)) [] = []
   \<and> (let l1 = snd (process_request (init rate_limit_settings) no_faults
                      (organizations test_db) [] search_request 0);
           l2 = snd (process_request (init rate_limit_settings) no_faults
                      (organizations test_db) l1 config_request 1000000);
           l3 = snd (process_request (init rate_limit_settings) no_faults
                      (organizations test_db) l2 search_request 2000000)
       in fst (process_request (init rate_limit_settings) no_faults
                 (organizations test_db) l3 search_request 3000000))
      = Inr (Some (Response 429
           (RateLimitBody ''Rate limit exceeded''
              ''Too many requests from IP 127.0.0.1. Please try again later.'' 3 1000)))
   \<and> startswith (path health_request) ''/api/v1/health/''
   \<and> process_request (init rate_limit_settings) no_faults (organizations test_db)
        sample_ledger health_request 3000000 = (Inr None, sample_ledger)"
proof -
  have a: "RATE_LIMIT_REQUESTS_PER_MINUTE rate_limit_settings = Some 3"
    by (simp add: rate_limit_settings_def)
  have rs: "list_all (\<lambda>r. \<not> should_skip_rate_limiting r \<and> get_client_ip r = ''127.0.0.1''
         \<and> get_organization_from_request no_faults (organizations test_db) r
             = Inr (Some org1))
        [search_request, config_request, search_request, search_request]"
    by (simp add: search_request_not_skipped search_request_ip search_request_organization
        config_request_facts)
  have k: "key_rows ''127.0.0.1'' (map_option org_id (Some org1)) [] = []"
    by (simp add: key_rows_def)
  have t: "(0::int) \<le> 1000000 \<and> (1000000::int) \<le> 2000000 \<and> (2000000::int) \<le> 3000000
           \<and> (3000000::int) \<le> 0 + minutes 1"
    by (simp add: minutes_def)
  have h: "startswith (path health_request) ''/api/v1/health/''"
    by (simp add: health_request_def startswith_def)
  have rph: "requests_per_hour (init rate_limit_settings) = 1000"
    by (simp add: init_def rate_limit_settings_def)
  show ?thesis
    using rate_limit_threshold_and_exemption [OF a, where ip = "''127.0.0.1''"
        and ?r1.0 = search_request and ?r2.0 = config_request and ?r3.0 = search_request
        and ?r4.0 = search_request
        and orgs = "organizations test_db" and organization = "Some org1" and ?l0.0 = "[]"
        and ?t1.0 = 0 and ?t2.0 = 1000000 and ?t3.0 = 2000000 and ?t4.0 = 3000000
        and h = health_request and f = no_faults and l = sample_ledger and t = 3000000]
      a rs k t h
    by (simp add: rph)
qed

theorem pruning_scope_and_frame_witness:
  "\<not> no_faults CleanupDelete
   \<and> cleanup_old_records no_faults sample_ledger ''127.0.0.1'' (hours 48)
       = [\<lparr> rid = 3, ip_address = ''127.0.0.1'', rl_organization = None,
            request_count = 1, window_start = hours 47, last_request = hours 47 \<rparr>,
          \<lparr> rid = 4, ip_address = ''10.0.0.9'', rl_organization = None,
            request_count = 7, window_start = 0, last_request = 0 \<rparr>]
   \<and> set (cleanup_old_records no_faults sample_ledger ''127.0.0.1'' (hours 48))
       = set sample_ledger
           - {r. ip_address r = ''127.0.0.1'' \<and> last_request r < hours 48 - hours 24}"
proof -
  have a: "\<not> no_faults CleanupDelete" by (simp add: no_faults_False)
  have e: "cleanup_old_records no_faults sample_ledger ''127.0.0.1'' (hours 48)
       = [\<lparr> rid = 3, ip_address = ''127.0.0.1'', rl_organization = None,
            request_count = 1, window_start = hours 47, last_request = hours 47 \<rparr>,
          \<lparr> rid = 4, ip_address = ''10.0.0.9'', rl_organization = None,
            request_count = 7, window_start = 0, last_request = 0 \<rparr>]"
    by (simp add: cleanup_old_records_def no_faults_False sample_ledger_def hours_def Let_def)
  show ?thesis
    using pruning_scope_and_frame [where f = no_faults and ledger = sample_ledger
        and p = "''127.0.0.1''" and now = "hours 48"] a e
    by simp
qed

text \<open>
  C4. The \<open>get_or_create\<close> call of \<open>_is_rate_limited\<close> is not guarded: a database
  error raised there leaves the middleware, and so does the error it raises itself when
  two rows share the request's key.
\<close>

theorem get_or_create_error_escapes:
  "fst (process_request (init rate_limit_settings) (no_faults(CheckGetOrCreate := True))
          (organizations test_db) [] search_request 0) = Inl DatabaseError
   \<and> fst (process_request (init rate_limit_settings) no_faults (organizations test_db)
          [\<lparr> rid = 1, ip_address = ''127.0.0.1'',
             rl_organization = Some ''00000000-0000-4000-8000-0000000000a1'',
             request_count = 1, window_start = 0, last_request = 0 \<rparr>,
           \<lparr> rid = 2, ip_address = ''127.0.0.1'',
             rl_organization = Some ''00000000-0000-4000-8000-0000000000a1'',
             request_count = 1, window_start = 0, last_request = 0 \<rparr>]
          search_request 0) = Inl (MultipleObjectsReturned RateLimitRecordModel)"
proof -
  have o: "get_organization_from_request (no_faults(CheckGetOrCreate := True))
             (organizations test_db) search_request = Inr (Some org1)"
    by (simp add: get_organization_from_request_def search_request_parts search_request_uuid
      no_faults_False test_db_def org1_def org2_def Let_def)
  have 1: "fst (process_request (init rate_limit_settings) (no_faults(CheckGetOrCreate := True))
          (organizations test_db) [] search_request 0) = Inl DatabaseError"
    by (simp add: process_request_def search_request_not_skipped o is_rate_limited_def Let_def)
  have 2: "fst (process_request (init rate_limit_settings) no_faults (organizations test_db)
          [\<lparr> rid = 1, ip_address = ''127.0.0.1'',
             rl_organization = Some ''00000000-0000-4000-8000-0000000000a1'',
             request_count = 1, window_start = 0, last_request = 0 \<rparr>,
           \<lparr> rid = 2, ip_address = ''127.0.0.1'',
             rl_organization = Some ''00000000-0000-4000-8000-0000000000a1'',
             request_count = 1, window_start = 0, last_request = 0 \<rparr>]
          search_request 0) = Inl (MultipleObjectsReturned RateLimitRecordModel)"
    by (simp add: process_request_def search_request_not_skipped search_request_organization
        search_request_ip is_rate_limited_def cleanup_old_records_def get_or_create_def
        no_faults_False org1_def hours_def Let_def)
  show ?thesis using 1 2 by simp
qed


end
